theory Spec2Isabelle
  imports Main "HOL-Library.Word" "HOL-Library.AList"
begin

unbundle bit_operations_syntax

section \<open>The NONG manifest manager of jukebox\<close>

text \<open>
  A shallow embedding of \<^verbatim>\<open>src/managers/nong_manager.cpp\<close>. The manager owns a map from
  song ids to aggregates (\<^verbatim>\<open>Nongs\<close>), loads it from one file per id, and mutates it
  through a handful of entry points. The C++ \<^verbatim>\<open>int\<close> is a 32-bit word read as two's
  complement; \<^verbatim>\<open>geode::Result<T>\<close> is a sum whose left side is the error string; an
  uncaught C++ exception or a null dereference is a value of \<open>exn\<close>.
\<close>

subsection \<open>Basic types\<close>

type_synonym int32 = "32 word"

type_synonym 'a Result = "string + 'a"

datatype exn =
  InvalidArgument
  | OutOfRange
  | BadOptionalAccess
  | NullDereference
  | FilesystemError

text \<open>
  Modelled from the spec: the value types of \<^verbatim>\<open>nong.hpp\<close>, which is not among the
  sources. \<^verbatim>\<open>SongMetadata\<close> has the fields the spec lists, in the order of the
  constructor calls of \<^verbatim>\<open>initSongID\<close>; an audio entry is one of three variants, of which
  only the local one carries a file path.
\<close>

record SongMetadata =
  gdID :: int32
  uniqueID :: string
  name :: string
  artist :: string
  startOffset :: int32
  indexSource :: "string option"

record LocalSong =
  metadata :: SongMetadata
  path :: string

record YTSong =
  yt_metadata :: SongMetadata
  yt_url :: string

record HostedSong =
  hosted_metadata :: SongMetadata
  hosted_url :: string

datatype Song = Local LocalSong | Youtube YTSong | Hosted HostedSong

record Nongs =
  songID :: int32
  defaultSong :: LocalSong
  locals :: "LocalSong list"
  youtubes :: "YTSong list"
  hosteds :: "HostedSong list"
  activeID :: string

text \<open>
  Modelled from the spec: the constructor \<^verbatim>\<open>SongMetadata{gdID, uniqueID, name, artist}\<close>
  (start offset 0, no index), and the constructor \<^verbatim>\<open>Nongs{songID, defaultSong}\<close>, an
  aggregate with no candidates whose active entry is the default.
\<close>

definition mkSongMetadata :: "int32 \<Rightarrow> string \<Rightarrow> string \<Rightarrow> string \<Rightarrow> SongMetadata" where
  "mkSongMetadata g u n a =
     \<lparr>gdID = g, uniqueID = u, name = n, artist = a, startOffset = 0, indexSource = None\<rparr>"

definition mkNongs :: "int32 \<Rightarrow> LocalSong \<Rightarrow> Nongs" where
  "mkNongs g d =
     \<lparr>songID = g, defaultSong = d, locals = [], youtubes = [], hosteds = [],
      activeID = uniqueID (metadata d)\<rparr>"

text \<open>
  Modelled from the spec: the accessors \<^verbatim>\<open>Song::path()\<close> (an optional: only a local entry
  has a path) and \<^verbatim>\<open>Nongs::active()\<close> (the entry whose unique id is the active id; the
  default is looked at first). A pointer that resolves to no entry is \<open>None\<close>.
\<close>

fun Song_metadata :: "Song \<Rightarrow> SongMetadata" where
  "Song_metadata (Local s) = metadata s"
| "Song_metadata (Youtube s) = yt_metadata s"
| "Song_metadata (Hosted s) = hosted_metadata s"

fun Song_path :: "Song \<Rightarrow> string option" where
  "Song_path (Local s) = Some (path s)"
| "Song_path (Youtube s) = None"
| "Song_path (Hosted s) = None"

definition entries :: "Nongs \<Rightarrow> Song list" where
  "entries n =
     Local (defaultSong n) # map Local (locals n) @ map Youtube (youtubes n)
       @ map Hosted (hosteds n)"

definition active :: "Nongs \<Rightarrow> Song option" where
  "active n = find (\<lambda>e. uniqueID (Song_metadata e) = activeID n) (entries n)"

subsection \<open>The manifest map\<close>

text \<open>
  \<^verbatim>\<open>m_manifest.m_nongs\<close> is a \<^verbatim>\<open>std::unordered_map<int, std::unique_ptr<Nongs>>\<close>: an
  association list with distinct keys, whose values are pointers (\<open>None\<close> is the null
  pointer). The order of the list stands for the iteration order of the map, which C++
  leaves open; a new key goes to the end.
\<close>

type_synonym manifest = "(int32 \<times> Nongs option) list"

definition contains :: "manifest \<Rightarrow> int32 \<Rightarrow> bool" where
  "contains m k = (map_of m k \<noteq> None)"

text \<open>\<^verbatim>\<open>insert\<close> keeps the element already stored under the key.\<close>

definition insert_entry :: "int32 \<Rightarrow> Nongs option \<Rightarrow> manifest \<Rightarrow> manifest" where
  "insert_entry k v m = (if contains m k then m else m @ [(k, v)])"

text \<open>
  \<^verbatim>\<open>operator[]\<close> adds a value-initialised element, a null pointer, when the key is
  absent, and returns the stored pointer.
\<close>

definition subscript :: "manifest \<Rightarrow> int32 \<Rightarrow> Nongs option \<times> manifest" where
  "subscript m k =
     (case map_of m k of
        None \<Rightarrow> (None, m @ [(k, None)])
      | Some p \<Rightarrow> (p, m))"

subsection \<open>The state of the manager and of its directory\<close>

text \<open>
  The manifest directory is a list of files in the order the directory iterator gives
  them: a name and the contents, \<open>None\<close> for a file that cannot be opened. The
  directory itself may be absent. Audio files and the legacy manifest are outside the
  state; calls to the host and to the index manager are recorded in \<open>calls\<close>.
\<close>

type_synonym dir = "(string \<times> string option) list"

datatype hostcall =
  GetSongInfo int32
  | RegisterIndexNongs "Nongs option"
  | BackupManifest bool

record state =
  m_nongs :: manifest
  m_initialized :: bool
  manifest_dir :: "dir option"
  calls :: "hostcall list"

text \<open>The files of the directory; a directory that is not there has none.\<close>

definition files_of :: "dir option \<Rightarrow> dir" where
  "files_of d = (case d of None \<Rightarrow> [] | Some fs \<Rightarrow> fs)"

definition getNongs :: "state \<Rightarrow> int32 \<Rightarrow> Nongs option option" where
  "getNongs st k = (if \<not> contains (m_nongs st) k then None else Some (fst (subscript (m_nongs st) k)))"

definition getStoredIDCount :: "state \<Rightarrow> nat" where
  "getStoredIDCount st = length (m_nongs st)"

subsection \<open>adjustSongID and initSongID\<close>

definition adjustSongID :: "int32 \<Rightarrow> bool \<Rightarrow> int32" where
  "adjustSongID n robtop = (if robtop then (if n <s 0 then n else - n - 1) else n)"

text \<open>
  What \<^verbatim>\<open>initSongID\<close> asks of the host: the song object of the call's argument is a
  parameter of its own; the rest is this record. \<open>random_string16\<close> is the value
  \<^verbatim>\<open>random_string(16)\<close> returns at this call, \<open>createUnknown\<close> is
  \<^verbatim>\<open>LocalSong::createUnknown\<close>.
\<close>

record SongInfoObject =
  m_songName :: string
  m_artistName :: string

record host =
  random_string16 :: string
  getAudioFileName :: "int32 \<Rightarrow> string"
  getWritablePath2 :: string
  getWritablePath :: string
  getSongInfoObject :: "int32 \<Rightarrow> SongInfoObject option"
  pathForSong :: "int32 \<Rightarrow> string"
  createUnknown :: "int32 \<Rightarrow> LocalSong"

text \<open>\<^verbatim>\<open>std::filesystem::path::operator/\<close> on POSIX path strings.\<close>

definition path_join :: "string \<Rightarrow> string \<Rightarrow> string" where
  "path_join a b =
     (if b \<noteq> [] \<and> hd b = CHR ''/'' then b
      else if a = [] \<or> last a = CHR ''/'' then a @ b
      else a @ ''/'' @ b)"

definition initSongID :: "host \<Rightarrow> SongInfoObject option \<Rightarrow> int32 \<Rightarrow> bool \<Rightarrow> state \<Rightarrow> state" where
  "initSongID h obj n robtop st =
     (if contains (m_nongs st) n then st
      else if obj = None \<and> robtop then st
      else
        let (m1, initialized) =
              (case obj of
                 Some ob \<Rightarrow>
                   if robtop then
                     (let adjusted = adjustSongID n robtop;
                          filename = getAudioFileName h n;
                          gdDir = getWritablePath2 h
                      in (insert_entry adjusted
                            (Some (mkNongs adjusted
                               \<lparr>metadata = mkSongMetadata adjusted (random_string16 h)
                                    (m_songName ob) (m_artistName ob),
                                path = path_join (path_join gdDir ''Resources'') filename\<rparr>))
                            (m_nongs st), True))
                   else (m_nongs st, False)
               | None \<Rightarrow> (m_nongs st, False));
            obj1 = (if obj = None \<and> \<not> initialized then getSongInfoObject h n else obj)
        in
          if obj1 = None \<and> \<not> initialized then
            st\<lparr>m_nongs := insert_entry n (Some (mkNongs n (createUnknown h n))) m1,
               calls := calls st @ [GetSongInfo n]\<rparr>
          else
            let m2 =
                  (if \<not> initialized then
                     (case obj1 of
                        Some ob \<Rightarrow>
                          insert_entry n
                            (Some (mkNongs n
                               \<lparr>metadata = mkSongMetadata n (random_string16 h)
                                    (m_songName ob) (m_artistName ob),
                                path = pathForSong h n\<rparr>)) m1
                      | None \<Rightarrow> m1)
                   else m1);
                (nongs, m3) = subscript m2 n
            in st\<lparr>m_nongs := m3, calls := calls st @ [RegisterIndexNongs nongs]\<rparr>)"

subsection \<open>Library functions the manager calls\<close>

text \<open>
  \<^verbatim>\<open>std::stoi\<close>: leading white space is skipped, a sign is optional, the longest run of
  decimal digits is read and the rest of the string is ignored. No digit is
  \<^verbatim>\<open>std::invalid_argument\<close>; a value outside the 32-bit range is \<^verbatim>\<open>std::out_of_range\<close>.
\<close>

definition isspace :: "char \<Rightarrow> bool" where
  "isspace c = (c = CHR '' '' \<or> (9 \<le> (of_char c :: nat) \<and> (of_char c :: nat) \<le> 13))"

definition isdigit :: "char \<Rightarrow> bool" where
  "isdigit c = (48 \<le> (of_char c :: nat) \<and> (of_char c :: nat) \<le> 57)"

definition digits_value :: "string \<Rightarrow> int" where
  "digits_value ds = foldl (\<lambda>a c. 10 * a + (int (of_char c) - 48)) 0 ds"

definition stoi :: "string \<Rightarrow> exn + int32" where
  "stoi s =
     (let s1 = dropWhile isspace s;
          neg = (s1 \<noteq> [] \<and> hd s1 = CHR ''-'');
          s2 = (if s1 \<noteq> [] \<and> (hd s1 = CHR ''-'' \<or> hd s1 = CHR ''+'') then tl s1 else s1);
          ds = takeWhile isdigit s2
      in if ds = [] then Inl InvalidArgument
         else
           let v = (if neg then - digits_value ds else digits_value ds)
           in if v < - (2 ^ 31) \<or> 2 ^ 31 - 1 < v then Inl OutOfRange
              else Inr (word_of_int v))"

text \<open>\<^verbatim>\<open>fmt::format("{}", id)\<close> for an \<^verbatim>\<open>int\<close>: the decimal digits, with a minus sign.\<close>

fun dec :: "nat \<Rightarrow> string" where
  "dec n = (if n < 10 then [char_of (48 + n)] else dec (n div 10) @ [char_of (48 + n mod 10)])"

declare dec.simps [simp del]

definition format_int :: "int32 \<Rightarrow> string" where
  "format_int n = (if sint n < 0 then CHR ''-'' # dec (nat (- sint n)) else dec (nat (sint n)))"

text \<open>
  \<^verbatim>\<open>std::getline(stream, s, ',')\<close> in a loop: the pieces between commas; a trailing comma
  gives no empty last piece.
\<close>

fun getlines :: "string \<Rightarrow> string \<Rightarrow> string list" where
  "getlines acc [] = (if acc = [] then [] else [rev acc])"
| "getlines acc (c # cs) =
     (if c = CHR '','' then rev acc # getlines [] cs else getlines (c # acc) cs)"

text \<open>
  \<^verbatim>\<open>path::extension()\<close> and \<^verbatim>\<open>path::stem()\<close> of a file name: the extension starts at
  the last period, unless that period is the first character or the name is \<open>.\<close> or
  \<open>..\<close>; the stem is the rest.
\<close>

definition extension :: "string \<Rightarrow> string" where
  "extension f =
     (if f = ''.'' \<or> f = ''..'' then []
      else
        let k = length (takeWhile (\<lambda>c. c \<noteq> CHR ''.'') (rev f))
        in if k = length f then []
           else if Suc k = length f then []
           else drop (length f - Suc k) f)"

definition stem :: "string \<Rightarrow> string" where
  "stem f = take (length f - length (extension f)) f"

text \<open>
  \<^verbatim>\<open>std::filesystem::rename\<close> inside the manifest directory: the file keeps its place and
  its contents, a file that had the new name is replaced; renaming a file that is not
  there throws.
\<close>

definition rename_file :: "string \<Rightarrow> string \<Rightarrow> dir \<Rightarrow> exn + dir" where
  "rename_file old new d =
     (if map_of d old = None then Inl FilesystemError
      else Inr (map (\<lambda>(k, v). if k = old then (new, v) else (k, v))
                  (filter (\<lambda>(k, v). k \<noteq> new \<or> k = old) d)))"

subsection \<open>getFormattedSize and getMultiAssetSizes\<close>

text \<open>
  The sums are C++ \<^verbatim>\<open>float\<close>s. Floating point is kept out of the embedding: \<open>fzero\<close> is
  \<^verbatim>\<open>0.f\<close>, \<open>fadd\<close> is \<^verbatim>\<open>sum += size\<close> (so \<open>fadd fzero n\<close> is the conversion of a size),
  and \<open>megabytes3\<close> is the text that \<^verbatim>\<open>setprecision(3)\<close> prints for
  \<^verbatim>\<open>sum / 1024.f / 1024.f\<close>. For \<^verbatim>\<open>getFormattedSize\<close>, which calls \<^verbatim>\<open>file_size(path, code)\<close>,
  the files are a map from a path to the size read there, \<open>None\<close> when the call sets
  the error code.
\<close>

record 'f float_ops =
  fzero :: 'f
  fadd :: "'f \<Rightarrow> nat \<Rightarrow> 'f"
  megabytes3 :: "'f \<Rightarrow> string"

definition getFormattedSize :: "'f float_ops \<Rightarrow> (string \<rightharpoonup> nat) \<Rightarrow> string \<Rightarrow> string" where
  "getFormattedSize F files p =
     (case files p of
        None \<Rightarrow> ''N/A''
      | Some sz \<Rightarrow> megabytes3 F (fadd F (fzero F) sz) @ ''MB'')"

definition starts_with :: "string \<Rightarrow> string \<Rightarrow> bool" where
  "starts_with s pre = (take (length pre) s = pre)"

text \<open>
  \<^verbatim>\<open>getMultiAssetSizes\<close> calls the overloads of \<^verbatim>\<open>std::filesystem::exists\<close> and
  \<^verbatim>\<open>std::filesystem::file_size\<close> that throw: \<open>fs_exists\<close> and \<open>fs_file_size\<close> give
  what each returns for a path, or the exception (\<^verbatim>\<open>file_size\<close> of a directory, a
  status that cannot be read). \<^verbatim>\<open>exists(path, ec)\<close> is \<open>false\<close> where \<^verbatim>\<open>exists(path)\<close>
  throws.
\<close>

record filesystem =
  fs_exists :: "string \<Rightarrow> exn + bool"
  fs_file_size :: "string \<Rightarrow> exn + nat"

definition exists_ec :: "filesystem \<Rightarrow> string \<Rightarrow> bool" where
  "exists_ec FS p = (case fs_exists FS p of Inl e \<Rightarrow> False | Inr b \<Rightarrow> b)"

text \<open>The path whose size the song loop reads for the path \<open>p0\<close> of an active entry.\<close>

definition song_file :: "string \<Rightarrow> string \<Rightarrow> string" where
  "song_file resources p0 = (if starts_with p0 ''songs/'' then path_join resources p0 else p0)"

fun sum_songs ::
  "'f float_ops \<Rightarrow> state \<Rightarrow> filesystem \<Rightarrow> string \<Rightarrow> string list \<Rightarrow> 'f \<Rightarrow> exn + 'f" where
  "sum_songs F st FS resources [] acc = Inr acc"
| "sum_songs F st FS resources (s # ss) acc =
     (case stoi s of
        Inl e \<Rightarrow> Inl e
      | Inr n \<Rightarrow>
          (case getNongs st n of
             None \<Rightarrow> sum_songs F st FS resources ss acc
           | Some None \<Rightarrow> Inl NullDereference
           | Some (Some nongs) \<Rightarrow>
               (case active nongs of
                  None \<Rightarrow> Inl NullDereference
                | Some a \<Rightarrow>
                    (case Song_path a of
                       None \<Rightarrow> Inl BadOptionalAccess
                     | Some p0 \<Rightarrow>
                         (case fs_exists FS (song_file resources p0) of
                            Inl e \<Rightarrow> Inl e
                          | Inr b \<Rightarrow>
                              if b then
                                (case fs_file_size FS (song_file resources p0) of
                                   Inl e \<Rightarrow> Inl e
                                 | Inr sz \<Rightarrow> sum_songs F st FS resources ss (fadd F acc sz))
                              else sum_songs F st FS resources ss acc)))))"

fun sum_sfx ::
  "'f float_ops \<Rightarrow> filesystem \<Rightarrow> string \<Rightarrow> string \<Rightarrow> string list \<Rightarrow> 'f \<Rightarrow> exn + 'f" where
  "sum_sfx F FS resources songDir [] acc = Inr acc"
| "sum_sfx F FS resources songDir (s # ss) acc =
     (let filename = ''s'' @ s @ ''.ogg'';
          localPath = path_join (path_join resources ''sfx'') filename
      in if exists_ec FS localPath then
           (case fs_file_size FS localPath of
              Inl e \<Rightarrow> Inl e
            | Inr sz \<Rightarrow> sum_sfx F FS resources songDir ss (fadd F acc sz))
         else if exists_ec FS (path_join songDir filename) then
           (case fs_file_size FS (path_join songDir filename) of
              Inl e \<Rightarrow> Inl e
            | Inr sz \<Rightarrow> sum_sfx F FS resources songDir ss (fadd F acc sz))
         else sum_sfx F FS resources songDir ss acc)"

definition getMultiAssetSizes ::
  "'f float_ops \<Rightarrow> host \<Rightarrow> filesystem \<Rightarrow> state \<Rightarrow> string \<Rightarrow> string \<Rightarrow> exn + string" where
  "getMultiAssetSizes F h FS st songs sfx =
     (let resources = path_join (getWritablePath2 h) ''Resources'';
          songDir = getWritablePath h
      in case sum_songs F st FS resources (getlines [] songs) (fzero F) of
           Inl e \<Rightarrow> Inl e
         | Inr acc \<Rightarrow>
             (case sum_sfx F FS resources songDir (getlines [] sfx) acc of
                Inl e \<Rightarrow> Inl e
              | Inr acc' \<Rightarrow> Inr (megabytes3 F acc' @ ''MB'')))"

subsection \<open>Loading one manifest file\<close>

text \<open>
  \<^verbatim>\<open>matjson::parse\<close> belongs to a library and \<^verbatim>\<open>Serialize<Nongs>::from_json\<close> to
  \<^verbatim>\<open>nong_serialize.hpp\<close>, which is not among the sources: both are parameters.
\<close>

record 'j serializer =
  parse :: "string \<Rightarrow> string + 'j"
  from_json :: "'j \<Rightarrow> int32 \<Rightarrow> Nongs Result"

definition loadNongsFromPath :: "'j serializer \<Rightarrow> dir \<Rightarrow> string \<Rightarrow> exn + Nongs Result" where
  "loadNongsFromPath S d filename =
     (case stoi (stem filename) of
        Inl e \<Rightarrow> Inl e
      | Inr n \<Rightarrow>
          if n = 0 then Inr (Inl (''Invalid filename '' @ filename))
          else
            (case map_of d filename of
               Some (Some contents) \<Rightarrow>
                 (case parse S contents of
                    Inl err \<Rightarrow>
                      Inr (Inl (format_int n @ '': Couldn't parse JSON from file: '' @ err))
                  | Inr json \<Rightarrow>
                      (case from_json S json n of
                         Inl err \<Rightarrow> Inr (Inl (format_int n @ '': Failed to parse JSON: '' @ err))
                       | Inr nongs \<Rightarrow> Inr (Inr nongs)))
             | _ \<Rightarrow> Inr (Inl (''Couldn't open file: '' @ filename))))"

subsection \<open>Saving\<close>

text \<open>
  The member functions of \<^verbatim>\<open>Nongs\<close> are in \<^verbatim>\<open>nong.cpp\<close>, which is not among the sources:
  they are parameters. Each one that mutates the aggregate returns its result and the
  aggregate afterwards; \<open>Nongs_commit\<close> returns its result and the manifest directory
  afterwards.
\<close>

record NongsOps =
  Nongs_add :: "Nongs \<Rightarrow> LocalSong \<Rightarrow> unit Result \<times> Nongs"
  Nongs_merge :: "Nongs \<Rightarrow> Nongs \<Rightarrow> unit Result \<times> Nongs"
  Nongs_setActive :: "Nongs \<Rightarrow> string \<Rightarrow> unit Result \<times> Nongs"
  Nongs_deleteAllSongs :: "Nongs \<Rightarrow> unit Result \<times> Nongs"
  Nongs_deleteSongAudio :: "Nongs \<Rightarrow> string \<Rightarrow> unit Result \<times> Nongs"
  Nongs_deleteSong :: "Nongs \<Rightarrow> string \<Rightarrow> unit Result \<times> Nongs"
  Nongs_commit :: "Nongs \<Rightarrow> dir option \<Rightarrow> unit Result \<times> dir option"

definition create_if_absent :: "dir option \<Rightarrow> dir option" where
  "create_if_absent d = (case d of None \<Rightarrow> Some [] | Some fs \<Rightarrow> Some fs)"

fun save_entries ::
  "NongsOps \<Rightarrow> int32 option \<Rightarrow> manifest \<Rightarrow> dir option \<Rightarrow> exn + (unit Result \<times> dir option)" where
  "save_entries ops saveID [] d = Inr (Inr (), d)"
| "save_entries ops saveID ((k, p) # es) d =
     (if saveID \<noteq> None \<and> the saveID \<noteq> k then save_entries ops saveID es d
      else
        (case p of
           None \<Rightarrow> Inl NullDereference
         | Some nongs \<Rightarrow>
             (case Nongs_commit ops nongs d of
                (Inl e, d') \<Rightarrow> Inr (Inl e, d')
              | (Inr u, d') \<Rightarrow> save_entries ops saveID es d')))"

definition saveNongs :: "NongsOps \<Rightarrow> int32 option \<Rightarrow> state \<Rightarrow> exn + (unit Result \<times> state)" where
  "saveNongs ops saveID st =
     (case save_entries ops saveID (m_nongs st) (create_if_absent (manifest_dir st)) of
        Inl e \<Rightarrow> Inl e
      | Inr (res, d) \<Rightarrow> Inr (res, st\<lparr>manifest_dir := d\<rparr>))"

text \<open>
  A pointer handed out by the map aliases the stored aggregate: a mutation through it
  is an update of the element under the key.
\<close>

definition store :: "int32 \<Rightarrow> Nongs \<Rightarrow> state \<Rightarrow> state" where
  "store k nongs st = st\<lparr>m_nongs := AList.update k (Some nongs) (m_nongs st)\<rparr>"

subsection \<open>The song info listener\<close>

record GetSongInfo_event =
  ev_gdSongID :: int32
  ev_songName :: string
  ev_artistName :: string

datatype ListenerResult = Propagate | Stop

definition songInfoListener ::
  "NongsOps \<Rightarrow> GetSongInfo_event \<Rightarrow> state \<Rightarrow> exn + (ListenerResult \<times> state)" where
  "songInfoListener ops event st =
     (case getNongs st (ev_gdSongID event) of
        None \<Rightarrow> Inr (Stop, st)
      | Some None \<Rightarrow> Inl NullDereference
      | Some (Some nongs) \<Rightarrow>
          let md = metadata (defaultSong nongs)
          in if ev_songName event = name md \<and> ev_artistName event = artist md then Inr (Stop, st)
             else
               let nongs' =
                     nongs\<lparr>defaultSong := (defaultSong nongs)
                        \<lparr>metadata := md\<lparr>name := ev_songName event, artist := ev_artistName event\<rparr>\<rparr>\<rparr>
               in (case saveNongs ops (Some (ev_gdSongID event)) (store (ev_gdSongID event) nongs' st) of
                     Inl e \<Rightarrow> Inl e
                   | Inr (res, st') \<Rightarrow> Inr (Propagate, st')))"

subsection \<open>Migration from the legacy manifest\<close>

text \<open>
  Modelled from the spec: a record of the legacy manifest (\<^verbatim>\<open>compat/compat.hpp\<close> is not
  among the sources), with its default song, its flat list of songs and its active
  song. \<^verbatim>\<open>compat::v2\<close> is only declared in the sources: whether the legacy file exists and
  what parsing it gives (the ids in the order of the iteration) are parameters.
\<close>

record CompatManifest =
  compat_defaultSong :: LocalSong
  compat_songs :: "LocalSong list"
  compat_active :: LocalSong

record v2 =
  manifestExists :: bool
  parseManifest :: "(int32 \<times> CompatManifest) list Result"

text \<open>
  The inner loop of \<^verbatim>\<open>migrateV2\<close>. The first conjunct of the comparison is written as
  in the source: the start offset of the stored song against itself.
\<close>

definition found_stored :: "LocalSong \<Rightarrow> LocalSong list \<Rightarrow> bool" where
  "found_stored i stored_locals =
     list_ex (\<lambda>stored.
         startOffset (metadata stored) = startOffset (metadata stored)
         \<and> name (metadata stored) = name (metadata i)
         \<and> artist (metadata stored) = artist (metadata i)) stored_locals"

fun migrate_songs :: "NongsOps \<Rightarrow> LocalSong \<Rightarrow> LocalSong list \<Rightarrow> Nongs \<Rightarrow> Nongs" where
  "migrate_songs ops dflt [] nongs = nongs"
| "migrate_songs ops dflt (i # is) nongs =
     (if path i = path dflt then migrate_songs ops dflt is nongs
      else if found_stored i (locals nongs) then migrate_songs ops dflt is nongs
      else migrate_songs ops dflt is (snd (Nongs_add ops nongs i)))"

fun migrate_ids :: "NongsOps \<Rightarrow> (int32 \<times> CompatManifest) list \<Rightarrow> state \<Rightarrow> exn + state" where
  "migrate_ids ops [] st = Inr st"
| "migrate_ids ops ((k, cm) # kvs) st =
     (let m1 =
            (if \<not> contains (m_nongs st) k
             then insert_entry k (Some (mkNongs k (compat_defaultSong cm))) (m_nongs st)
             else m_nongs st);
          (p, m2) = subscript m1 k
      in case p of
           None \<Rightarrow> Inl NullDereference
         | Some nongs \<Rightarrow>
             let n1 = migrate_songs ops (compat_defaultSong cm) (compat_songs cm) nongs;
                 n2 = snd (Nongs_setActive ops n1 (uniqueID (metadata (compat_active cm))));
                 d = snd (Nongs_commit ops n2 (manifest_dir st))
             in migrate_ids ops kvs (store k n2 (st\<lparr>m_nongs := m2, manifest_dir := d\<rparr>)))"

definition migrateV2 :: "NongsOps \<Rightarrow> v2 \<Rightarrow> state \<Rightarrow> exn + (unit Result \<times> state)" where
  "migrateV2 ops legacy st =
     (if \<not> manifestExists legacy then Inr (Inr (), st)
      else
        (case parseManifest legacy of
           Inl e \<Rightarrow> Inr (Inl e, st)
         | Inr manifest \<Rightarrow>
             (case migrate_ids ops manifest st of
                Inl e \<Rightarrow> Inl e
              | Inr st' \<Rightarrow> Inr (Inr (), st'\<lparr>calls := calls st' @ [BackupManifest True]\<rparr>))))"

subsection \<open>init\<close>

text \<open>
  The loop of \<^verbatim>\<open>init\<close> over the directory: the names are those the iterator gives, the
  files are read from the directory as it is when the file's turn comes.
\<close>

fun load_entries :: "'j serializer \<Rightarrow> string list \<Rightarrow> state \<Rightarrow> exn + state" where
  "load_entries S [] st = Inr st"
| "load_entries S (filename # fs) st =
     (if extension filename \<noteq> ''.json'' then load_entries S fs st
      else
        (case loadNongsFromPath S (files_of (manifest_dir st)) filename of
           Inl e \<Rightarrow> Inl e
         | Inr (Inl err) \<Rightarrow>
             (case rename_file filename (filename @ ''.bak'') (files_of (manifest_dir st)) of
                Inl e \<Rightarrow> Inl e
              | Inr d \<Rightarrow> load_entries S fs (st\<lparr>manifest_dir := Some d\<rparr>))
         | Inr (Inr ptr) \<Rightarrow>
             load_entries S fs (st\<lparr>m_nongs := insert_entry (songID ptr) (Some ptr) (m_nongs st)\<rparr>)))"

definition init :: "'j serializer \<Rightarrow> NongsOps \<Rightarrow> v2 \<Rightarrow> state \<Rightarrow> exn + (bool \<times> state)" where
  "init S ops legacy st =
     (if m_initialized st then Inr (True, st)
      else
        let st0 = st\<lparr>manifest_dir := create_if_absent (manifest_dir st)\<rparr>
        in (case load_entries S (map fst (files_of (manifest_dir st0))) st0 of
              Inl e \<Rightarrow> Inl e
            | Inr st1 \<Rightarrow>
                (case migrateV2 ops legacy st1 of
                   Inl e \<Rightarrow> Inl e
                 | Inr (res, st2) \<Rightarrow> Inr (True, st2\<lparr>m_initialized := True\<rparr>))))"

subsection \<open>The mutating entry points\<close>

definition addNongs :: "NongsOps \<Rightarrow> Nongs \<Rightarrow> state \<Rightarrow> exn + (unit Result \<times> state)" where
  "addNongs ops nongs st =
     (if \<not> contains (m_nongs st) (songID nongs)
      then Inr (Inl ''Song not initialized in manifest'', st)
      else
        (case map_of (m_nongs st) (songID nongs) of
           None \<Rightarrow> Inl OutOfRange
         | Some None \<Rightarrow> Inl NullDereference
         | Some (Some manifestNongs) \<Rightarrow>
             (case Nongs_merge ops manifestNongs nongs of
                (Inl e, n') \<Rightarrow> Inr (Inl e, store (songID nongs) n' st)
              | (Inr u, n') \<Rightarrow> saveNongs ops (Some (songID n')) (store (songID nongs) n' st))))"

definition setActiveSong :: "NongsOps \<Rightarrow> int32 \<Rightarrow> string \<Rightarrow> state \<Rightarrow> exn + (unit Result \<times> state)" where
  "setActiveSong ops gdSongID uid st =
     (case getNongs st gdSongID of
        None \<Rightarrow> Inr (Inl ''Song not initialized in manifest'', st)
      | Some None \<Rightarrow> Inl NullDereference
      | Some (Some nongs) \<Rightarrow>
          (case Nongs_setActive ops nongs uid of
             (Inl e, n') \<Rightarrow> Inr (Inl e, store gdSongID n' st)
           | (Inr u, n') \<Rightarrow> saveNongs ops (Some gdSongID) (store gdSongID n' st)))"

definition deleteAllSongs :: "NongsOps \<Rightarrow> int32 \<Rightarrow> state \<Rightarrow> exn + (unit Result \<times> state)" where
  "deleteAllSongs ops gdSongID st =
     (case getNongs st gdSongID of
        None \<Rightarrow> Inr (Inl ''Song not initialized in manifest'', st)
      | Some None \<Rightarrow> Inl NullDereference
      | Some (Some nongs) \<Rightarrow>
          (case Nongs_deleteAllSongs ops nongs of
             (Inl e, n') \<Rightarrow> Inr (Inl e, store gdSongID n' st)
           | (Inr u, n') \<Rightarrow> saveNongs ops (Some gdSongID) (store gdSongID n' st)))"

definition deleteSongAudio :: "NongsOps \<Rightarrow> int32 \<Rightarrow> string \<Rightarrow> state \<Rightarrow> exn + (unit Result \<times> state)" where
  "deleteSongAudio ops gdSongID uid st =
     (case getNongs st gdSongID of
        None \<Rightarrow> Inr (Inl ''Song not initialized in manifest'', st)
      | Some None \<Rightarrow> Inl NullDereference
      | Some (Some nongs) \<Rightarrow>
          (case Nongs_deleteSongAudio ops nongs uid of
             (Inl e, n') \<Rightarrow> Inr (Inl (''Couldn't delete Nong: '' @ e), store gdSongID n' st)
           | (Inr u, n') \<Rightarrow> saveNongs ops (Some gdSongID) (store gdSongID n' st)))"

definition deleteSong :: "NongsOps \<Rightarrow> int32 \<Rightarrow> string \<Rightarrow> state \<Rightarrow> exn + (unit Result \<times> state)" where
  "deleteSong ops gdSongID uid st =
     (case getNongs st gdSongID of
        None \<Rightarrow> Inr (Inl ''Song not initialized in manifest'', st)
      | Some None \<Rightarrow> Inl NullDereference
      | Some (Some nongs) \<Rightarrow>
          (case Nongs_deleteSong ops nongs uid of
             (Inl e, n') \<Rightarrow> Inr (Inl (''Couldn't delete Nong: '' @ e), store gdSongID n' st)
           | (Inr u, n') \<Rightarrow>
               (case Nongs_commit ops n' (manifest_dir st) of
                  (res, d) \<Rightarrow> Inr (res, (store gdSongID n' st)\<lparr>manifest_dir := d\<rparr>))))"

subsection \<open>What the claims speak of\<close>

text \<open>
  The state after a call that hands aggregate \<open>nongs'\<close> back under id \<open>k\<close> and commits
  it, and nothing else, to directory \<open>d\<close>; and its result.
\<close>

definition committed :: "NongsOps \<Rightarrow> int32 \<Rightarrow> Nongs \<Rightarrow> dir option \<Rightarrow> state \<Rightarrow> unit Result \<times> state" where
  "committed ops k nongs' d st =
     (fst (Nongs_commit ops nongs' d),
      (store k nongs' st)\<lparr>manifest_dir := snd (Nongs_commit ops nongs' d)\<rparr>)"

text \<open>No key of the manifest holds a null pointer.\<close>

definition no_null :: "manifest \<Rightarrow> bool" where
  "no_null m = list_all (\<lambda>(k, p). p \<noteq> None) m"

text \<open>
  A piece of the comma-separated list is readable when \<^verbatim>\<open>stoi\<close> accepts it and the
  pointers on the way to the active entry are not null; its active entry has a path
  when \<^verbatim>\<open>path()\<close> of that entry is not empty.
\<close>

definition readable_id :: "state \<Rightarrow> string \<Rightarrow> bool" where
  "readable_id st s =
     (case stoi s of
        Inl e \<Rightarrow> False
      | Inr n \<Rightarrow>
          (case getNongs st n of
             None \<Rightarrow> True
           | Some None \<Rightarrow> False
           | Some (Some nongs) \<Rightarrow> active nongs \<noteq> None))"

definition active_has_path :: "state \<Rightarrow> string \<Rightarrow> bool" where
  "active_has_path st s =
     (case stoi s of
        Inl e \<Rightarrow> True
      | Inr n \<Rightarrow>
          (case getNongs st n of
             Some (Some nongs) \<Rightarrow>
               (case active nongs of None \<Rightarrow> True | Some a \<Rightarrow> Song_path a \<noteq> None)
           | _ \<Rightarrow> True))"

text \<open>
  The calls to the file system for a piece of the list do not throw: \<^verbatim>\<open>exists\<close> of the
  file of its active entry returns, and so does \<^verbatim>\<open>file_size\<close> when the file exists.
\<close>

definition sizes_readable :: "filesystem \<Rightarrow> string \<Rightarrow> state \<Rightarrow> string \<Rightarrow> bool" where
  "sizes_readable FS resources st s =
     (case stoi s of
        Inl e \<Rightarrow> True
      | Inr n \<Rightarrow>
          (case getNongs st n of
             Some (Some nongs) \<Rightarrow>
               (case active nongs of
                  None \<Rightarrow> True
                | Some a \<Rightarrow>
                    (case Song_path a of
                       None \<Rightarrow> True
                     | Some p0 \<Rightarrow>
                         (case fs_exists FS (song_file resources p0) of
                            Inl e \<Rightarrow> False
                          | Inr b \<Rightarrow>
                              if b then
                                (case fs_file_size FS (song_file resources p0) of
                                   Inl e \<Rightarrow> False
                                 | Inr sz \<Rightarrow> True)
                              else True)))
           | _ \<Rightarrow> True))"

text \<open>
  The names of a directory that \<^verbatim>\<open>init\<close> can read to the end: no name twice, and every
  \<open>.json\<close> name has a stem that \<^verbatim>\<open>stoi\<close> accepts.
\<close>

definition stems_parse :: "string list \<Rightarrow> bool" where
  "stems_parse fs =
     list_all (\<lambda>f. extension f \<noteq> ''.json'' \<or> (case stoi (stem f) of Inl e \<Rightarrow> False | Inr n \<Rightarrow> True)) fs"

subsection \<open>Example values\<close>

text \<open>
  A host, a simple instance of the aggregate's operations and of the serializer, and a
  few songs and states, on which the theorems below are run.
\<close>

definition example_host :: host where
  "example_host =
     \<lparr>random_string16 = ''abcdefghijklmnop'',
      getAudioFileName = (\<lambda>n. ''StereoMadness.mp3''),
      getWritablePath2 = ''/gd'',
      getWritablePath = ''/gd/songs'',
      getSongInfoObject = (\<lambda>n. None),
      pathForSong = (\<lambda>n. ''/gd/songs/x.mp3''),
      createUnknown = (\<lambda>n. \<lparr>metadata = mkSongMetadata n ''u'' ''Unknown'' ''Unknown'', path = []\<rparr>)\<rparr>"

definition example_obj :: SongInfoObject where
  "example_obj = \<lparr>m_songName = ''Stereo Madness'', m_artistName = ''ForeverBound''\<rparr>"

definition example_song :: "int32 \<Rightarrow> string \<Rightarrow> string \<Rightarrow> int32 \<Rightarrow> string \<Rightarrow> LocalSong" where
  "example_song g u n off p =
     \<lparr>metadata = (mkSongMetadata g u n ''artist'')\<lparr>startOffset := off\<rparr>, path = p\<rparr>"

definition example_ops :: NongsOps where
  "example_ops =
     \<lparr>Nongs_add = (\<lambda>n s. (Inr (), n\<lparr>locals := locals n @ [s]\<rparr>)),
      Nongs_merge = (\<lambda>n other. (Inr (), n\<lparr>locals := locals n @ locals other\<rparr>)),
      Nongs_setActive = (\<lambda>n u.
        if list_ex (\<lambda>e. uniqueID (Song_metadata e) = u) (entries n)
        then (Inr (), n\<lparr>activeID := u\<rparr>) else (Inl ''No song found'', n)),
      Nongs_deleteAllSongs = (\<lambda>n.
        (Inr (), n\<lparr>locals := [], youtubes := [], hosteds := [],
                    activeID := uniqueID (metadata (defaultSong n))\<rparr>)),
      Nongs_deleteSongAudio = (\<lambda>n u. (Inr (), n)),
      Nongs_deleteSong = (\<lambda>n u.
        if u = uniqueID (metadata (defaultSong n)) then (Inl ''Cannot delete default song'', n)
        else (Inr (), n\<lparr>locals := filter (\<lambda>s. uniqueID (metadata s) \<noteq> u) (locals n)\<rparr>)),
      Nongs_commit = (\<lambda>n d.
        (Inr (), Some (AList.update (format_int (songID n) @ ''.json'')
                         (Some (name (metadata (defaultSong n)))) (files_of d))))\<rparr>"

definition example_nongs :: "int32 \<Rightarrow> string \<Rightarrow> Nongs" where
  "example_nongs k n = mkNongs k (example_song k ''d'' n 0 ''songs/default.mp3'')"

definition example_serializer :: "string serializer" where
  "example_serializer =
     \<lparr>parse = (\<lambda>s. if s = ''{'' then Inl ''unexpected end of input'' else Inr s),
      from_json = (\<lambda>j n. Inr (example_nongs n j))\<rparr>"

definition example_float :: "nat float_ops" where
  "example_float = \<lparr>fzero = 0, fadd = (\<lambda>a b. a + b), megabytes3 = (\<lambda>a. dec (a div 1048576))\<rparr>"

definition example_fs :: filesystem where
  "example_fs =
     \<lparr>fs_exists = (\<lambda>p. Inr (p = ''/gd/Resources/songs/default.mp3'' \<or> p = ''/gd/Resources/songs'')),
      fs_file_size = (\<lambda>p.
        if p = ''/gd/Resources/songs/default.mp3'' then Inr 2097152 else Inl FilesystemError)\<rparr>"

definition legacy_default :: LocalSong where
  "legacy_default = example_song 5 ''d'' ''Default'' 0 ''P.mp3''"

definition legacy_first :: LocalSong where
  "legacy_first = example_song 5 ''a0'' ''A'' 0 ''Q.mp3''"

definition legacy_second :: LocalSong where
  "legacy_second = example_song 5 ''a5'' ''A'' 5 ''R.mp3''"

definition example_legacy :: v2 where
  "example_legacy =
     \<lparr>manifestExists = True,
      parseManifest =
        Inr [(5, \<lparr>compat_defaultSong = legacy_default,
                   compat_songs = [legacy_default, legacy_first, legacy_second],
                   compat_active = legacy_default\<rparr>)]\<rparr>"

definition youtube_active :: Nongs where
  "youtube_active =
     (example_nongs 42 ''Level song'')
       \<lparr>youtubes := [\<lparr>yt_metadata = mkSongMetadata 42 ''y'' ''Video'' ''artist'',
                       yt_url = ''https://youtu.be/x''\<rparr>],
        activeID := ''y''\<rparr>"

definition no_legacy :: v2 where
  "no_legacy = \<lparr>manifestExists = False, parseManifest = Inr []\<rparr>"

definition example_state :: "manifest \<Rightarrow> dir \<Rightarrow> state" where
  "example_state m d = \<lparr>m_nongs = m, m_initialized = False, manifest_dir = Some d, calls = []\<rparr>"

section \<open>Properties\<close>

lemma files_of_Some [simp]: "files_of (Some d) = d"
  by (simp add: files_of_def)

subsection \<open>adjustSongID\<close>

lemma sint_minus_minus_one: "sint (- x - 1 :: int32) = - sint x - 1"
proof -
  have eq: "- x - 1 = NOT x"
    by (simp add: not_eq_complement)
  have lo: "- (2 ^ 31) \<le> sint x"
    using sint_ge [of x] by simp
  have hi: "sint x < 2 ^ 31"
    using sint_lt [of x] by simp
  have "signed_take_bit 32 (- sint x - 1) = - sint x - 1"
    using lo hi by (simp add: signed_take_bit_int_eq_self_iff)
  then show ?thesis
    unfolding eq by (simp add: signed_not_eq not_int_def)
qed

lemma adjusted_negative: "\<not> (x :: int32) <s 0 \<Longrightarrow> (- x - 1) <s 0"
  by (simp add: word_sless_alt sint_minus_minus_one)

lemma adjustSongID_robtop_negative: "adjustSongID n True <s 0"
  by (simp add: adjustSongID_def adjusted_negative)

text \<open>
  C9. For the built-in songs (\<open>robtop\<close>) \<open>adjustSongID\<close> is idempotent on every 32-bit
  id: its result is negative, and a negative id is returned as it is. For the other
  songs it is the identity.
\<close>

theorem adjustSongID_idempotent:
  "adjustSongID (adjustSongID n True) True = adjustSongID n True
   \<and> adjustSongID n True <s 0
   \<and> adjustSongID n False = n"
  using adjustSongID_robtop_negative [of n] by (simp add: adjustSongID_def)

subsection \<open>initSongID\<close>

text \<open>
  C1. A built-in song is to be checked, inserted and looked up under its derived key, so
  that a call for which the derived key is already in the manifest changes nothing. The
  code checks and looks up under the id it was given. With an aggregate under the
  derived key \<open>-6\<close>, the call for the built-in song \<open>5\<close> does not return at the
  check; its insertion under \<open>-6\<close> keeps the old aggregate, and the subscript under
  \<open>5\<close> adds a null pointer, which is handed to the index manager.
\<close>

theorem initSongID_robtop_raw_key_lookup:
  "contains [(- 6, Some (example_nongs (- 6) ''Stereo Madness''))] (adjustSongID 5 True)
   \<and> initSongID example_host (Some example_obj) 5 True
        (example_state [(- 6, Some (example_nongs (- 6) ''Stereo Madness''))] [])
     = (example_state
          [(- 6, Some (example_nongs (- 6) ''Stereo Madness'')), (5, None)] [])
         \<lparr>calls := [RegisterIndexNongs None]\<rparr>"
  by (simp add: initSongID_def example_state_def contains_def adjustSongID_def word_sless_alt
      insert_entry_def subscript_def example_host_def example_obj_def Let_def)

subsection \<open>Migration\<close>

lemma format_int_5: "format_int 5 = ''5''"
  by code_simp

text \<open>
  C2. A legacy song is to be skipped only when a stored local song has its name, its
  artist and its start offset. The comparison of the code never looks at the start
  offset of the incoming song. The legacy record of id \<open>5\<close> has two songs of one name
  and artist, with start offsets 0 and 5: the first is added, the second is skipped.
\<close>

theorem migrateV2_skips_different_startOffset:
  "migrateV2 example_ops example_legacy (example_state [] []) =
     Inr (Inr (),
       \<lparr>m_nongs = [(5, Some ((mkNongs 5 legacy_default)\<lparr>locals := [legacy_first]\<rparr>))],
        m_initialized = False,
        manifest_dir = Some [(''5.json'', Some ''Default'')],
        calls = [BackupManifest True]\<rparr>)
   \<and> path legacy_second \<noteq> path legacy_default
   \<and> startOffset (metadata legacy_second) \<noteq> startOffset (metadata legacy_first)"
  by (simp add: migrateV2_def example_legacy_def example_state_def contains_def insert_entry_def
      subscript_def legacy_default_def legacy_first_def legacy_second_def example_song_def
      found_stored_def mkNongs_def mkSongMetadata_def example_ops_def store_def entries_def
      format_int_5 Let_def)

subsection \<open>Loading the directory\<close>

lemma stoi_abc: "stoi ''abc'' = Inl InvalidArgument"
  by (simp add: stoi_def isspace_def isdigit_def)

lemma extension_abc_json: "extension ''abc.json'' = ''.json''"
  by (simp add: extension_def)

lemma stem_abc_json: "stem ''abc.json'' = ''abc''"
  by (simp add: stem_def extension_abc_json)

text \<open>
  C3. A \<open>.json\<close> file whose stem is no integer is to be ignored. In the code
  \<^verbatim>\<open>std::stoi\<close> throws on the stem and nothing catches it: with \<open>abc.json\<close> in the
  directory \<^verbatim>\<open>init\<close> ends with the exception, and \<open>8.json\<close> is never loaded.
\<close>

theorem init_non_integer_stem_throws:
  "init example_serializer example_ops no_legacy
     (example_state [] [(''abc.json'', Some ''{}''), (''8.json'', Some ''{}'')])
   = Inl InvalidArgument"
  by (simp add: init_def example_state_def create_if_absent_def loadNongsFromPath_def
      stem_abc_json extension_abc_json stoi_abc)

subsection \<open>getFormattedSize\<close>

text \<open>
  C8, as the code has it. When the size of the file cannot be read,
  \<^verbatim>\<open>getFormattedSize\<close> returns the text \<open>N/A\<close>, which is no megabyte total: every
  total ends in \<open>MB\<close>.
\<close>

theorem getFormattedSize_unreadable:
  "files p = None \<Longrightarrow>
     getFormattedSize F files p = ''N/A'' \<and> (\<forall>s. getFormattedSize F files p \<noteq> s @ ''MB'')"
  by (simp add: getFormattedSize_def)

theorem getFormattedSize_unreadable_witness:
  "Map.empty ''/gd/songs/gone.mp3'' = (None :: nat option)
   \<and> getFormattedSize example_float Map.empty ''/gd/songs/gone.mp3'' = ''N/A''"
  using getFormattedSize_unreadable [of Map.empty "''/gd/songs/gone.mp3''" example_float]
  by simp

text \<open>
  C8, as the spec has it, fails: for a file that is not there the result is not the
  total of zero bytes.
\<close>

theorem getFormattedSize_not_zero_total:
  "getFormattedSize example_float Map.empty ''/gd/songs/gone.mp3''
     \<noteq> megabytes3 example_float (fzero example_float) @ ''MB''"
  by (simp add: getFormattedSize_def)

subsection \<open>Saving one id\<close>

lemma getNongs_map_of: "getNongs st k = map_of (m_nongs st) k"
  by (simp add: getNongs_def contains_def subscript_def split: option.splits)

lemma save_entries_skip:
  "k \<notin> fst ` set m \<Longrightarrow> save_entries ops (Some k) m d = Inr (Inr (), d)"
  by (induction m arbitrary: d) auto

lemma save_entries_one:
  "distinct (map fst m) \<Longrightarrow> map_of m k = Some (Some n)
   \<Longrightarrow> save_entries ops (Some k) m d = Inr (Nongs_commit ops n d)"
proof (induction m arbitrary: d)
  case Nil
  then show ?case by simp
next
  case (Cons e es)
  obtain k' p where e: "e = (k', p)" by (cases e)
  show ?case
  proof (cases "k' = k")
    case True
    with Cons.prems e have p: "p = Some n" and notin: "k \<notin> fst ` set es"
      by auto
    obtain r d' where c: "Nongs_commit ops n d = (r, d')"
      by (cases "Nongs_commit ops n d")
    show ?thesis
      using True e p c save_entries_skip [OF notin, of ops d']
      by (cases r) auto
  next
    case False
    with Cons e show ?thesis by auto
  qed
qed

lemma saveNongs_store:
  assumes "distinct (map fst (m_nongs st))"
  shows "saveNongs ops (Some k) (store k n' st)
         = Inr (committed ops k n' (create_if_absent (manifest_dir st)) st)"
proof -
  have d: "distinct (map fst (m_nongs (store k n' st)))"
    using assms by (simp add: store_def distinct_update)
  have m: "map_of (m_nongs (store k n' st)) k = Some (Some n')"
    by (simp add: store_def update_conv')
  show ?thesis
    using save_entries_one [OF d m, of ops "create_if_absent (manifest_dir st)"]
    by (simp add: saveNongs_def committed_def store_def split: prod.splits)
qed

subsection \<open>The song info listener\<close>

lemma songInfoListener_none:
  "getNongs st (ev_gdSongID ev) = None \<Longrightarrow> songInfoListener ops ev st = Inr (Stop, st)"
  by (simp add: songInfoListener_def)

lemma songInfoListener_some:
  "distinct (map fst (m_nongs st)) \<Longrightarrow> getNongs st (ev_gdSongID ev) = Some (Some n)
   \<Longrightarrow> songInfoListener ops ev st =
       (if ev_songName ev = name (metadata (defaultSong n))
           \<and> ev_artistName ev = artist (metadata (defaultSong n))
        then Inr (Stop, st)
        else Inr (Propagate,
               snd (committed ops (ev_gdSongID ev)
                 (n\<lparr>defaultSong := (defaultSong n)\<lparr>metadata := (metadata (defaultSong n))
                        \<lparr>name := ev_songName ev, artist := ev_artistName ev\<rparr>\<rparr>\<rparr>)
                 (create_if_absent (manifest_dir st)) st)))"
  by (simp add: songInfoListener_def saveNongs_store Let_def committed_def)

text \<open>
  C5. The listener of the song info event, on a manifest whose keys are distinct (as
  those of a map are). With no aggregate for the id of the event it stops the event
  and changes nothing. With an aggregate whose default entry has the name and the
  artist of the event it stops the event and changes nothing. Otherwise the default
  entry gets the name and the artist of the event, that aggregate and no other is
  committed, and the event propagates.
\<close>

theorem songInfoListener_cases:
  assumes "distinct (map fst (m_nongs st))"
  shows "(getNongs st (ev_gdSongID ev) = None \<longrightarrow> songInfoListener ops ev st = Inr (Stop, st))
    \<and> (getNongs st (ev_gdSongID ev) = Some (Some n) \<longrightarrow>
         songInfoListener ops ev st =
           (if ev_songName ev = name (metadata (defaultSong n))
               \<and> ev_artistName ev = artist (metadata (defaultSong n))
            then Inr (Stop, st)
            else Inr (Propagate,
                   snd (committed ops (ev_gdSongID ev)
                     (n\<lparr>defaultSong := (defaultSong n)\<lparr>metadata := (metadata (defaultSong n))
                            \<lparr>name := ev_songName ev, artist := ev_artistName ev\<rparr>\<rparr>\<rparr>)
                     (create_if_absent (manifest_dir st)) st))))"
  using assms songInfoListener_none [of st ev ops] songInfoListener_some [of st ev n ops]
  by blast

lemma format_int_99: "format_int 99 = ''99''"
  by code_simp

theorem songInfoListener_cases_witness:
  "songInfoListener example_ops \<lparr>ev_gdSongID = 99, ev_songName = ''New'', ev_artistName = ''Artist''\<rparr>
     (example_state [(99, Some (example_nongs 99 ''Old''))] [])
   = Inr (Propagate,
       example_state
         [(99, Some (mkNongs 99
             \<lparr>metadata = mkSongMetadata 99 ''d'' ''New'' ''Artist'', path = ''songs/default.mp3''\<rparr>))]
         [(''99.json'', Some ''New'')])
   \<and> songInfoListener example_ops \<lparr>ev_gdSongID = 99, ev_songName = ''Old'', ev_artistName = ''artist''\<rparr>
     (example_state [(99, Some (example_nongs 99 ''Old''))] [])
   = Inr (Stop, example_state [(99, Some (example_nongs 99 ''Old''))] [])
   \<and> songInfoListener example_ops \<lparr>ev_gdSongID = 98, ev_songName = ''New'', ev_artistName = ''Artist''\<rparr>
     (example_state [(99, Some (example_nongs 99 ''Old''))] [])
   = Inr (Stop, example_state [(99, Some (example_nongs 99 ''Old''))] [])"
  using
    songInfoListener_cases [of "example_state [(99, Some (example_nongs 99 ''Old''))] []"
      "\<lparr>ev_gdSongID = 99, ev_songName = ''New'', ev_artistName = ''Artist''\<rparr>" example_ops
      "example_nongs 99 ''Old''"]
    songInfoListener_cases [of "example_state [(99, Some (example_nongs 99 ''Old''))] []"
      "\<lparr>ev_gdSongID = 99, ev_songName = ''Old'', ev_artistName = ''artist''\<rparr>" example_ops
      "example_nongs 99 ''Old''"]
    songInfoListener_cases [of "example_state [(99, Some (example_nongs 99 ''Old''))] []"
      "\<lparr>ev_gdSongID = 98, ev_songName = ''New'', ev_artistName = ''Artist''\<rparr>" example_ops
      "example_nongs 99 ''Old''"]
  by (simp add: getNongs_map_of example_state_def example_nongs_def example_song_def mkNongs_def
      mkSongMetadata_def committed_def store_def example_ops_def create_if_absent_def format_int_99)


subsection \<open>The mutating entry points\<close>

lemma setActiveSong_present:
  assumes "distinct (map fst (m_nongs st))" and "getNongs st k = Some (Some n)"
  shows "setActiveSong ops k u st =
     (case Nongs_setActive ops n u of
        (Inl e, n') \<Rightarrow> Inr (Inl e, store k n' st)
      | (Inr x, n') \<Rightarrow> Inr (committed ops k n' (create_if_absent (manifest_dir st)) st))"
  using assms by (simp add: setActiveSong_def saveNongs_store split: prod.splits sum.splits)

lemma deleteAllSongs_present:
  assumes "distinct (map fst (m_nongs st))" and "getNongs st k = Some (Some n)"
  shows "deleteAllSongs ops k st =
     (case Nongs_deleteAllSongs ops n of
        (Inl e, n') \<Rightarrow> Inr (Inl e, store k n' st)
      | (Inr x, n') \<Rightarrow> Inr (committed ops k n' (create_if_absent (manifest_dir st)) st))"
  using assms by (simp add: deleteAllSongs_def saveNongs_store split: prod.splits sum.splits)

lemma deleteSongAudio_present:
  assumes "distinct (map fst (m_nongs st))" and "getNongs st k = Some (Some n)"
  shows "deleteSongAudio ops k u st =
     (case Nongs_deleteSongAudio ops n u of
        (Inl e, n') \<Rightarrow> Inr (Inl (''Couldn't delete Nong: '' @ e), store k n' st)
      | (Inr x, n') \<Rightarrow> Inr (committed ops k n' (create_if_absent (manifest_dir st)) st))"
  using assms by (simp add: deleteSongAudio_def saveNongs_store split: prod.splits sum.splits)

lemma deleteSong_present:
  assumes "getNongs st k = Some (Some n)"
  shows "deleteSong ops k u st =
     (case Nongs_deleteSong ops n u of
        (Inl e, n') \<Rightarrow> Inr (Inl (''Couldn't delete Nong: '' @ e), store k n' st)
      | (Inr x, n') \<Rightarrow> Inr (committed ops k n' (manifest_dir st) st))"
  using assms by (simp add: deleteSong_def committed_def split: prod.splits sum.splits)

lemma addNongs_present:
  assumes "distinct (map fst (m_nongs st))" and "getNongs st (songID other) = Some (Some n)"
    and "songID (snd (Nongs_merge ops n other)) = songID other"
  shows "addNongs ops other st =
     (case Nongs_merge ops n other of
        (Inl e, n') \<Rightarrow> Inr (Inl e, store (songID other) n' st)
      | (Inr x, n') \<Rightarrow>
          Inr (committed ops (songID other) n' (create_if_absent (manifest_dir st)) st))"
  using assms
  by (auto simp add: addNongs_def getNongs_map_of contains_def saveNongs_store
      split: prod.splits sum.splits)

lemma entry_points_absent:
  assumes "getNongs st k = None"
  shows "setActiveSong ops k u st = Inr (Inl ''Song not initialized in manifest'', st)"
    and "deleteAllSongs ops k st = Inr (Inl ''Song not initialized in manifest'', st)"
    and "deleteSongAudio ops k u st = Inr (Inl ''Song not initialized in manifest'', st)"
    and "deleteSong ops k u st = Inr (Inl ''Song not initialized in manifest'', st)"
  using assms
  by (simp_all add: setActiveSong_def deleteAllSongs_def deleteSongAudio_def deleteSong_def)

lemma addNongs_absent:
  assumes "getNongs st (songID other) = None"
  shows "addNongs ops other st = Inr (Inl ''Song not initialized in manifest'', st)"
  using assms by (simp add: addNongs_def getNongs_map_of contains_def)

text \<open>
  C6. On a manifest whose keys are distinct: when \<^verbatim>\<open>getNongs\<close> finds nothing for the
  id, each of the five entry points returns the error \<open>Song not initialized in manifest\<close>
  and leaves the whole state as it was. When the aggregate is there, each hands
  the call to the aggregate; if the aggregate reports an error, the error is returned
  (with a prefix, for the two deletions of one song) and nothing is committed; if not,
  the aggregate of that id and no other is committed, and the result of the commit is
  returned. For \<^verbatim>\<open>addNongs\<close> the id is that of the aggregate passed in, which
  \<^verbatim>\<open>merge\<close> is taken to keep.
\<close>

theorem entry_points_initialised_then_commit:
  assumes "distinct (map fst (m_nongs st))"
  shows
    "(getNongs st k = None \<longrightarrow>
        setActiveSong ops k u st = Inr (Inl ''Song not initialized in manifest'', st)
      \<and> deleteSong ops k u st = Inr (Inl ''Song not initialized in manifest'', st)
      \<and> deleteSongAudio ops k u st = Inr (Inl ''Song not initialized in manifest'', st)
      \<and> deleteAllSongs ops k st = Inr (Inl ''Song not initialized in manifest'', st)
      \<and> (songID other = k \<longrightarrow>
           addNongs ops other st = Inr (Inl ''Song not initialized in manifest'', st)))
   \<and> (getNongs st k = Some (Some n) \<longrightarrow>
        setActiveSong ops k u st =
          (case Nongs_setActive ops n u of
             (Inl e, n') \<Rightarrow> Inr (Inl e, store k n' st)
           | (Inr x, n') \<Rightarrow> Inr (committed ops k n' (create_if_absent (manifest_dir st)) st))
      \<and> deleteSong ops k u st =
          (case Nongs_deleteSong ops n u of
             (Inl e, n') \<Rightarrow> Inr (Inl (''Couldn't delete Nong: '' @ e), store k n' st)
           | (Inr x, n') \<Rightarrow> Inr (committed ops k n' (manifest_dir st) st))
      \<and> deleteSongAudio ops k u st =
          (case Nongs_deleteSongAudio ops n u of
             (Inl e, n') \<Rightarrow> Inr (Inl (''Couldn't delete Nong: '' @ e), store k n' st)
           | (Inr x, n') \<Rightarrow> Inr (committed ops k n' (create_if_absent (manifest_dir st)) st))
      \<and> deleteAllSongs ops k st =
          (case Nongs_deleteAllSongs ops n of
             (Inl e, n') \<Rightarrow> Inr (Inl e, store k n' st)
           | (Inr x, n') \<Rightarrow> Inr (committed ops k n' (create_if_absent (manifest_dir st)) st))
      \<and> (songID other = k \<and> songID (snd (Nongs_merge ops n other)) = k \<longrightarrow>
           addNongs ops other st =
             (case Nongs_merge ops n other of
                (Inl e, n') \<Rightarrow> Inr (Inl e, store k n' st)
              | (Inr x, n') \<Rightarrow>
                  Inr (committed ops k n' (create_if_absent (manifest_dir st)) st))))"
proof (intro conjI impI)
  assume a: "getNongs st k = None"
  show "setActiveSong ops k u st = Inr (Inl ''Song not initialized in manifest'', st)"
    and "deleteSong ops k u st = Inr (Inl ''Song not initialized in manifest'', st)"
    and "deleteSongAudio ops k u st = Inr (Inl ''Song not initialized in manifest'', st)"
    and "deleteAllSongs ops k st = Inr (Inl ''Song not initialized in manifest'', st)"
    using entry_points_absent [OF a] by simp_all
  assume "songID other = k"
  with a show "addNongs ops other st = Inr (Inl ''Song not initialized in manifest'', st)"
    using addNongs_absent [of st other ops] by simp
next
  assume p: "getNongs st k = Some (Some n)"
  show "setActiveSong ops k u st =
          (case Nongs_setActive ops n u of
             (Inl e, n') \<Rightarrow> Inr (Inl e, store k n' st)
           | (Inr x, n') \<Rightarrow> Inr (committed ops k n' (create_if_absent (manifest_dir st)) st))"
    by (rule setActiveSong_present [OF assms p])
  show "deleteSong ops k u st =
          (case Nongs_deleteSong ops n u of
             (Inl e, n') \<Rightarrow> Inr (Inl (''Couldn't delete Nong: '' @ e), store k n' st)
           | (Inr x, n') \<Rightarrow> Inr (committed ops k n' (manifest_dir st) st))"
    by (rule deleteSong_present [OF p])
  show "deleteSongAudio ops k u st =
          (case Nongs_deleteSongAudio ops n u of
             (Inl e, n') \<Rightarrow> Inr (Inl (''Couldn't delete Nong: '' @ e), store k n' st)
           | (Inr x, n') \<Rightarrow> Inr (committed ops k n' (create_if_absent (manifest_dir st)) st))"
    by (rule deleteSongAudio_present [OF assms p])
  show "deleteAllSongs ops k st =
          (case Nongs_deleteAllSongs ops n of
             (Inl e, n') \<Rightarrow> Inr (Inl e, store k n' st)
           | (Inr x, n') \<Rightarrow> Inr (committed ops k n' (create_if_absent (manifest_dir st)) st))"
    by (rule deleteAllSongs_present [OF assms p])
  assume "songID other = k \<and> songID (snd (Nongs_merge ops n other)) = k"
  then have o: "songID other = k" and m: "songID (snd (Nongs_merge ops n other)) = songID other"
    by simp_all
  from p o have p': "getNongs st (songID other) = Some (Some n)" by simp
  show "addNongs ops other st =
             (case Nongs_merge ops n other of
                (Inl e, n') \<Rightarrow> Inr (Inl e, store k n' st)
              | (Inr x, n') \<Rightarrow>
                  Inr (committed ops k n' (create_if_absent (manifest_dir st)) st))"
    using addNongs_present [OF assms p' m] unfolding o .
qed

lemma format_int_42: "format_int 42 = ''42''"
  by code_simp

theorem entry_points_initialised_then_commit_witness:
  "setActiveSong example_ops 42 ''d'' (example_state [(42, Some (example_nongs 42 ''Song''))] [])
     = Inr (Inr (), example_state [(42, Some (example_nongs 42 ''Song''))]
                      [(''42.json'', Some ''Song'')])
   \<and> deleteSong example_ops 42 ''d'' (example_state [(42, Some (example_nongs 42 ''Song''))] [])
     = Inr (Inl ''Couldn't delete Nong: Cannot delete default song'',
            example_state [(42, Some (example_nongs 42 ''Song''))] [])
   \<and> addNongs example_ops (example_nongs 42 ''Other'')
       (example_state [(42, Some (example_nongs 42 ''Song''))] [])
     = Inr (Inr (), example_state [(42, Some (example_nongs 42 ''Song''))]
                      [(''42.json'', Some ''Song'')])
   \<and> deleteAllSongs example_ops 43 (example_state [(42, Some (example_nongs 42 ''Song''))] [])
     = Inr (Inl ''Song not initialized in manifest'',
            example_state [(42, Some (example_nongs 42 ''Song''))] [])
   \<and> addNongs example_ops (example_nongs 43 ''Other'')
       (example_state [(42, Some (example_nongs 42 ''Song''))] [])
     = Inr (Inl ''Song not initialized in manifest'',
            example_state [(42, Some (example_nongs 42 ''Song''))] [])"
  using
    entry_points_initialised_then_commit
      [of "example_state [(42, Some (example_nongs 42 ''Song''))] []" 42 example_ops "''d''"
        "example_nongs 42 ''Other''" "example_nongs 42 ''Song''"]
    entry_points_initialised_then_commit
      [of "example_state [(42, Some (example_nongs 42 ''Song''))] []" 43 example_ops "''d''"
        "example_nongs 43 ''Other''" "example_nongs 42 ''Song''"]
  by (simp add: getNongs_map_of example_state_def example_nongs_def example_song_def mkNongs_def
      mkSongMetadata_def committed_def store_def example_ops_def create_if_absent_def
      entries_def format_int_42)

subsection \<open>The loop of init over the directory\<close>

lemma map_of_insert_entry_keep:
  "map_of m k = Some v \<Longrightarrow> map_of (insert_entry k' v' m) k = Some v"
  by (simp add: insert_entry_def)

lemma load_entries_keeps:
  "load_entries S fs st = Inr st' \<Longrightarrow> map_of (m_nongs st) k = Some v
   \<Longrightarrow> map_of (m_nongs st') k = Some v"
proof (induction fs arbitrary: st)
  case Nil
  then show ?case by simp
next
  case (Cons f fs)
  show ?case
  proof (cases "extension f = ''.json''")
    case False
    with Cons show ?thesis by simp
  next
    case True
    show ?thesis
    proof (cases "loadNongsFromPath S (files_of (manifest_dir st)) f")
      case (Inl e)
      with Cons.prems True show ?thesis by simp
    next
      case (Inr r)
      note load = this
      show ?thesis
      proof (cases r)
        case (Inl err)
        with Cons.prems True load show ?thesis
          by (auto split: sum.splits dest!: Cons.IH)
      next
        case (Inr ptr)
        with Cons.prems True load
        have "load_entries S fs
                (st\<lparr>m_nongs := insert_entry (songID ptr) (Some ptr) (m_nongs st)\<rparr>) = Inr st'"
          by simp
        from Cons.IH [OF this] Cons.prems(2) show ?thesis
          by (simp add: map_of_insert_entry_keep)
      qed
    qed
  qed
qed

text \<open>
  C4, as the code has it. When a \<open>.json\<close> file loads to an aggregate whose id is
  already a key of the manifest, the loop goes on with the state as it was: the
  aggregate stored first stays, the aggregate just loaded is dropped, and the file is
  neither renamed nor touched. When the id is new, the aggregate is stored under it.
  Whatever is stored under a key stays there to the end of the loop.
\<close>

theorem load_entries_duplicate_id:
  assumes "extension f = ''.json''"
    and "loadNongsFromPath S (files_of (manifest_dir st)) f = Inr (Inr n)"
  shows "(contains (m_nongs st) (songID n) \<longrightarrow>
            load_entries S (f # fs) st = load_entries S fs st)
       \<and> (\<not> contains (m_nongs st) (songID n) \<longrightarrow>
            load_entries S (f # fs) st =
              load_entries S fs (st\<lparr>m_nongs := m_nongs st @ [(songID n, Some n)]\<rparr>))
       \<and> (\<forall>st' k v. load_entries S fs st = Inr st' \<longrightarrow> map_of (m_nongs st) k = Some v
             \<longrightarrow> map_of (m_nongs st') k = Some v)"
  using assms load_entries_keeps [of S fs st] by (simp add: insert_entry_def)

lemma stoi_7: "stoi ''7'' = Inr 7"
  by (simp add: stoi_def isspace_def isdigit_def digits_value_def)

lemma stoi_07: "stoi ''07'' = Inr 7"
  by (simp add: stoi_def isspace_def isdigit_def digits_value_def)

lemma stoi_8: "stoi ''8'' = Inr 8"
  by (simp add: stoi_def isspace_def isdigit_def digits_value_def)

lemma extension_7_json: "extension ''7.json'' = ''.json''"
  by (simp add: extension_def)

lemma extension_07_json: "extension ''07.json'' = ''.json''"
  by (simp add: extension_def)

lemma extension_8_json: "extension ''8.json'' = ''.json''"
  by (simp add: extension_def)

lemma load_7_json:
  "loadNongsFromPath example_serializer [(''7.json'', Some ''A''), (''07.json'', Some ''B'')]
     ''7.json'' = Inr (Inr (example_nongs 7 ''A''))"
  by (simp add: loadNongsFromPath_def stem_def extension_7_json stoi_7 example_serializer_def)

lemma load_07_json:
  "loadNongsFromPath example_serializer [(''7.json'', Some ''A''), (''07.json'', Some ''B'')]
     ''07.json'' = Inr (Inr (example_nongs 7 ''B''))"
  by (simp add: loadNongsFromPath_def stem_def extension_07_json stoi_07 example_serializer_def)

theorem load_entries_duplicate_id_witness:
  "load_entries example_serializer [''07.json'']
     (example_state [(7, Some (example_nongs 7 ''A''))]
        [(''7.json'', Some ''A''), (''07.json'', Some ''B'')])
   = Inr (example_state [(7, Some (example_nongs 7 ''A''))]
        [(''7.json'', Some ''A''), (''07.json'', Some ''B'')])
   \<and> load_entries example_serializer [''7.json'', ''07.json'']
     (example_state [] [(''7.json'', Some ''A''), (''07.json'', Some ''B'')])
   = Inr (example_state [(7, Some (example_nongs 7 ''A''))]
        [(''7.json'', Some ''A''), (''07.json'', Some ''B'')])"
  using
    load_entries_duplicate_id [of "''07.json''" example_serializer
      "example_state [(7, Some (example_nongs 7 ''A''))]
         [(''7.json'', Some ''A''), (''07.json'', Some ''B'')]"
      "example_nongs 7 ''B''" "[]"]
    load_entries_duplicate_id [of "''7.json''" example_serializer
      "example_state [] [(''7.json'', Some ''A''), (''07.json'', Some ''B'')]"
      "example_nongs 7 ''A''" "[''07.json'']"]
    load_7_json load_07_json
  by (simp add: example_state_def extension_7_json extension_07_json contains_def
      example_nongs_def mkNongs_def insert_entry_def)

text \<open>
  C4, as the spec has it, fails. The files \<open>7.json\<close> and \<open>07.json\<close> both load, to
  aggregates of the id 7. After \<^verbatim>\<open>init\<close> the first one is in the manifest, and the
  directory is as it was: \<open>07.json\<close> has not been renamed.
\<close>

theorem init_duplicate_id_not_quarantined:
  "loadNongsFromPath example_serializer [(''7.json'', Some ''A''), (''07.json'', Some ''B'')]
     ''7.json'' = Inr (Inr (example_nongs 7 ''A''))
   \<and> loadNongsFromPath example_serializer [(''7.json'', Some ''A''), (''07.json'', Some ''B'')]
     ''07.json'' = Inr (Inr (example_nongs 7 ''B''))
   \<and> songID (example_nongs 7 ''A'') = songID (example_nongs 7 ''B'')
   \<and> init example_serializer example_ops no_legacy
       (example_state [] [(''7.json'', Some ''A''), (''07.json'', Some ''B'')])
     = Inr (True,
         (example_state [(7, Some (example_nongs 7 ''A''))]
            [(''7.json'', Some ''A''), (''07.json'', Some ''B'')])\<lparr>m_initialized := True\<rparr>)"
  using load_7_json load_07_json
  by (simp add: init_def example_state_def create_if_absent_def extension_7_json
      extension_07_json contains_def example_nongs_def mkNongs_def insert_entry_def
      migrateV2_def no_legacy_def)


subsection \<open>Quarantine of a file that fails to load\<close>

lemma extension_bak: "extension f = ''.json'' \<Longrightarrow> extension (f @ ''.bak'') = ''.bak''"
proof -
  assume a: "extension f = ''.json''"
  have ne: "f \<noteq> []"
    using a by (auto simp: extension_def)
  have l: "length (takeWhile (\<lambda>c. c \<noteq> CHR ''.'') (rev (f @ ''.bak''))) = 3"
    by simp
  have n1: "f @ ''.bak'' \<noteq> ''.''" "f @ ''.bak'' \<noteq> ''..''"
    using ne by (auto simp: append_eq_Cons_conv)
  show ?thesis
    unfolding extension_def using ne n1 l by (simp add: Let_def)
qed

lemma rename_file_props:
  assumes "map_of d old = Some c" and "old \<noteq> new"
  shows "\<exists>d'. rename_file old new d = Inr d' \<and> map_of d' old = None \<and> map_of d' new = Some c
          \<and> (\<forall>g. g \<noteq> old \<and> g \<noteq> new \<longrightarrow> map_of d' g = map_of d g)"
proof -
  let ?d' = "map (\<lambda>(k, v). if k = old then (new, v) else (k, v))
                  (filter (\<lambda>(k, v). k \<noteq> new \<or> k = old) d)"
  have r: "rename_file old new d = Inr ?d'"
    using assms by (simp add: rename_file_def)
  have a: "map_of ?d' old = None"
    using assms(2) by (induction d) (auto split: if_splits)
  have b: "map_of d old = Some c \<Longrightarrow> map_of ?d' new = Some c"
    using assms(2) by (induction d) (auto split: if_splits)
  have c: "\<And>g. g \<noteq> old \<Longrightarrow> g \<noteq> new \<Longrightarrow> map_of ?d' g = map_of d g"
    by (induction d) (auto split: if_splits)
  show ?thesis
    using r a b [OF assms(1)] c by blast
qed

lemma loadNongsFromPath_returns:
  "stoi (stem f) = Inr n \<Longrightarrow> \<exists>r. loadNongsFromPath S d f = Inr r"
  by (simp add: loadNongsFromPath_def split: option.splits sum.splits)

lemma no_null_insert_entry: "no_null m \<Longrightarrow> no_null (insert_entry k (Some n) m)"
  by (simp add: no_null_def insert_entry_def)

lemma no_null_update: "no_null m \<Longrightarrow> no_null (AList.update k (Some n) m)"
  by (induction m) (auto simp: no_null_def)

lemma no_null_lookup: "no_null m \<Longrightarrow> map_of m k = Some p \<Longrightarrow> p \<noteq> None"
  by (induction m) (auto simp: no_null_def split: if_splits)

lemma load_entries_total:
  assumes "stems_parse fs" and "distinct fs" and "manifest_dir st = Some d"
    and "\<forall>f\<in>set fs. extension f = ''.json'' \<longrightarrow> map_of d f \<noteq> None"
    and "no_null (m_nongs st)"
  shows "\<exists>st'. load_entries S fs st = Inr st' \<and> no_null (m_nongs st')"
  using assms
proof (induction fs arbitrary: st d)
  case Nil
  then show ?case by simp
next
  case (Cons f fs)
  have sp: "stems_parse fs"
    using Cons.prems(1) by (simp add: stems_parse_def)
  have di: "distinct fs" and fnot: "f \<notin> set fs"
    using Cons.prems(2) by auto
  show ?case
  proof (cases "extension f = ''.json''")
    case False
    have "\<forall>g\<in>set fs. extension g = ''.json'' \<longrightarrow> map_of d g \<noteq> None"
      using Cons.prems(4) by simp
    from Cons.IH [OF sp di Cons.prems(3) this Cons.prems(5)] False show ?thesis
      by simp
  next
    case True
    from Cons.prems(1) True obtain n where "stoi (stem f) = Inr n"
      by (auto simp: stems_parse_def split: sum.splits)
    from loadNongsFromPath_returns [OF this] obtain r
      where r: "loadNongsFromPath S d f = Inr r"
      by blast
    show ?thesis
    proof (cases r)
      case (Inl err)
      from Cons.prems(4) True obtain c where c: "map_of d f = Some c"
        by auto
      have "f \<noteq> f @ ''.bak''"
        by simp
      from rename_file_props [OF c this] obtain d' where
        d': "rename_file f (f @ ''.bak'') d = Inr d'"
        and others: "\<forall>g. g \<noteq> f \<and> g \<noteq> f @ ''.bak'' \<longrightarrow> map_of d' g = map_of d g"
        by blast
      have "\<forall>g\<in>set fs. extension g = ''.json'' \<longrightarrow> map_of d' g \<noteq> None"
      proof (intro ballI impI)
        fix g
        assume g: "g \<in> set fs" and e: "extension g = ''.json''"
        have "g \<noteq> f"
          using g fnot by auto
        moreover have "g \<noteq> f @ ''.bak''"
          using e extension_bak [OF True] by auto
        ultimately have "map_of d' g = map_of d g"
          using others by simp
        then show "map_of d' g \<noteq> None"
          using Cons.prems(4) g e by simp
      qed
      from Cons.IH [OF sp di _ this, of "st\<lparr>manifest_dir := Some d'\<rparr>"] Cons.prems(5)
      show ?thesis
        using True r Inl d' Cons.prems(3) by simp
    next
      case (Inr ptr)
      have "\<forall>g\<in>set fs. extension g = ''.json'' \<longrightarrow> map_of d g \<noteq> None"
        using Cons.prems(4) by simp
      from Cons.IH [OF sp di _ this,
          of "st\<lparr>m_nongs := insert_entry (songID ptr) (Some ptr) (m_nongs st)\<rparr>"]
        Cons.prems(3,5)
      show ?thesis
        using True r Inr by (simp add: no_null_insert_entry)
    qed
  qed
qed

lemma migrate_ids_total:
  "no_null (m_nongs st) \<Longrightarrow> \<exists>st'. migrate_ids ops kvs st = Inr st'"
proof (induction kvs arbitrary: st)
  case Nil
  then show ?case by simp
next
  case (Cons kv kvs)
  obtain k cm where kv: "kv = (k, cm)"
    by (cases kv)
  define m1 where "m1 = (if \<not> contains (m_nongs st) k
             then insert_entry k (Some (mkNongs k (compat_defaultSong cm))) (m_nongs st)
             else m_nongs st)"
  have nn: "no_null m1"
    using Cons.prems by (simp add: m1_def no_null_insert_entry)
  have "contains m1 k"
    by (auto simp: m1_def insert_entry_def contains_def map_add_def split: option.splits)
  then obtain p where p: "map_of m1 k = Some p"
    by (auto simp: contains_def)
  with nn obtain nongs where n: "p = Some nongs"
    using no_null_lookup by fastforce
  have sub: "subscript m1 k = (Some nongs, m1)"
    using p n by (simp add: subscript_def)
  have "\<And>n2 d. no_null (m_nongs (store k n2 (st\<lparr>m_nongs := m1, manifest_dir := d\<rparr>)))"
    using nn by (simp add: store_def no_null_update)
  from Cons.IH [OF this] show ?case
    using kv sub by (simp add: m1_def [symmetric] Let_def)
qed

subsection \<open>What the loop of init has done at its end\<close>

lemma rename_file_Inr:
  "rename_file old new d = Inr d' \<Longrightarrow>
     d' = map (\<lambda>(k, v). if k = old then (new, v) else (k, v))
            (filter (\<lambda>(k, v). k \<noteq> new \<or> k = old) d)"
  by (simp add: rename_file_def split: if_splits)

lemma rename_file_other:
  assumes "rename_file old new d = Inr d'" and "g \<noteq> old" and "g \<noteq> new"
  shows "map_of d' g = map_of d g"
  unfolding rename_file_Inr [OF assms(1)] using assms(2,3)
  by (induction d) (auto split: if_splits)

lemma rename_file_old:
  assumes "rename_file old new d = Inr d'" and "old \<noteq> new"
  shows "map_of d' old = None"
  unfolding rename_file_Inr [OF assms(1)] using assms(2)
  by (induction d) (auto split: if_splits)

lemma rename_file_new:
  assumes "rename_file old new d = Inr d'" and "old \<noteq> new"
  shows "map_of d' new = map_of d old"
  unfolding rename_file_Inr [OF assms(1)] using assms(2)
  by (induction d) (auto split: if_splits)

lemma loadNongsFromPath_cong:
  "map_of d' f = map_of d f \<Longrightarrow> loadNongsFromPath S d' f = loadNongsFromPath S d f"
  by (auto simp: loadNongsFromPath_def split: sum.splits)

lemma json_not_bak:
  "extension g = ''.json'' \<Longrightarrow> extension h = ''.json'' \<Longrightarrow> g \<noteq> h @ ''.bak''"
  using extension_bak [of h] by auto

text \<open>
  The loop changes the directory only at the \<open>.json\<close> names it visits and at their
  \<open>.bak\<close> names.
\<close>

lemma load_entries_frame:
  assumes "load_entries S fs st = Inr st1"
    and "\<forall>g\<in>set fs. extension g = ''.json'' \<longrightarrow> x \<noteq> g \<and> x \<noteq> g @ ''.bak''"
  shows "map_of (files_of (manifest_dir st1)) x = map_of (files_of (manifest_dir st)) x"
  using assms
proof (induction fs arbitrary: st)
  case Nil
  then show ?case by simp
next
  case (Cons f fs)
  have rest: "\<forall>g\<in>set fs. extension g = ''.json'' \<longrightarrow> x \<noteq> g \<and> x \<noteq> g @ ''.bak''"
    using Cons.prems(2) by simp
  show ?case
  proof (cases "extension f = ''.json''")
    case False
    with Cons.prems(1) Cons.IH [OF _ rest] show ?thesis by simp
  next
    case True
    with Cons.prems(2) have x: "x \<noteq> f" "x \<noteq> f @ ''.bak''"
      by simp_all
    show ?thesis
    proof (cases "loadNongsFromPath S (files_of (manifest_dir st)) f")
      case (Inl e)
      with Cons.prems(1) True show ?thesis by simp
    next
      case (Inr r)
      note load = this
      show ?thesis
      proof (cases r)
        case (Inl err)
        with Cons.prems(1) True load obtain d' where
          d': "rename_file f (f @ ''.bak'') (files_of (manifest_dir st)) = Inr d'"
          and run: "load_entries S fs (st\<lparr>manifest_dir := Some d'\<rparr>) = Inr st1"
          by (auto split: sum.splits)
        from Cons.IH [OF run rest] rename_file_other [OF d' x] show ?thesis
          by simp
      next
        case (Inr ptr)
        with Cons.prems(1) True load
        have "load_entries S fs
                (st\<lparr>m_nongs := insert_entry (songID ptr) (Some ptr) (m_nongs st)\<rparr>) = Inr st1"
          by simp
        from Cons.IH [OF this rest] show ?thesis
          by simp
      qed
    qed
  qed
qed

text \<open>
  A run of the loop over distinct names, whose \<open>.json\<close> files are still as in the
  directory \<open>d0\<close>: every file whose load fails is renamed, the id of every file that
  loads is a key of the manifest, and every element of the manifest was there before
  or comes from a file that loads.
\<close>

lemma load_entries_run:
  assumes "load_entries S fs st = Inr st1" and "distinct fs"
    and "\<forall>g\<in>set fs. extension g = ''.json'' \<longrightarrow>
           map_of (files_of (manifest_dir st)) g = map_of d0 g"
  shows "(\<forall>f\<in>set fs. extension f = ''.json'' \<longrightarrow>
            (\<forall>err. loadNongsFromPath S d0 f = Inr (Inl err) \<longrightarrow>
               map_of (files_of (manifest_dir st1)) f = None
               \<and> map_of (files_of (manifest_dir st1)) (f @ ''.bak'') = map_of d0 f)
          \<and> (\<forall>n. loadNongsFromPath S d0 f = Inr (Inr n) \<longrightarrow> contains (m_nongs st1) (songID n)))
       \<and> (\<forall>k p. (k, p) \<in> set (m_nongs st1) \<longrightarrow>
             (k, p) \<in> set (m_nongs st)
             \<or> (\<exists>f\<in>set fs. \<exists>n. extension f = ''.json'' \<and> loadNongsFromPath S d0 f = Inr (Inr n)
                   \<and> k = songID n \<and> p = Some n))"
  using assms
proof (induction fs arbitrary: st)
  case Nil
  then show ?case by simp
next
  case (Cons h fs)
  have hn: "h \<notin> set fs" and di: "distinct fs"
    using Cons.prems(2) by simp_all
  let ?cur = "files_of (manifest_dir st)"
  show ?case
  proof (cases "extension h = ''.json''")
    case False
    have run: "load_entries S fs st = Inr st1"
      using Cons.prems(1) False by simp
    have agree: "\<forall>g\<in>set fs. extension g = ''.json'' \<longrightarrow> map_of ?cur g = map_of d0 g"
      using Cons.prems(3) by simp
    from Cons.IH [OF run di agree] False show ?thesis
      by (simp only: list.set ball_simps bex_simps) blast
  next
    case True
    have same: "map_of ?cur h = map_of d0 h"
      using Cons.prems(3) True by simp
    then have cong: "loadNongsFromPath S ?cur h = loadNongsFromPath S d0 h"
      by (rule loadNongsFromPath_cong)
    show ?thesis
    proof (cases "loadNongsFromPath S d0 h")
      case (Inl e)
      with Cons.prems(1) True cong show ?thesis by simp
    next
      case (Inr r)
      note load = this
      show ?thesis
      proof (cases r)
        case (Inl err)
        with Cons.prems(1) True load cong obtain d' where
          d': "rename_file h (h @ ''.bak'') ?cur = Inr d'"
          and run: "load_entries S fs (st\<lparr>manifest_dir := Some d'\<rparr>) = Inr st1"
          by (auto split: sum.splits)
        have agree: "\<forall>g\<in>set fs. extension g = ''.json'' \<longrightarrow>
            map_of (files_of (manifest_dir (st\<lparr>manifest_dir := Some d'\<rparr>))) g = map_of d0 g"
        proof (intro ballI impI)
          fix g
          assume g: "g \<in> set fs" and e: "extension g = ''.json''"
          have "g \<noteq> h"
            using g hn by auto
          moreover have "g \<noteq> h @ ''.bak''"
            using e True by (rule json_not_bak)
          ultimately have "map_of d' g = map_of ?cur g"
            using rename_file_other [OF d'] by simp
          then show "map_of (files_of (manifest_dir (st\<lparr>manifest_dir := Some d'\<rparr>))) g
                       = map_of d0 g"
            using Cons.prems(3) g e by simp
        qed
        note IH = Cons.IH [OF run di agree]
        have frame_h: "\<forall>g\<in>set fs. extension g = ''.json'' \<longrightarrow> h \<noteq> g \<and> h \<noteq> g @ ''.bak''"
          using hn True json_not_bak by blast
        have frame_b: "\<forall>g\<in>set fs. extension g = ''.json'' \<longrightarrow>
            h @ ''.bak'' \<noteq> g \<and> h @ ''.bak'' \<noteq> g @ ''.bak''"
          using hn True json_not_bak by fastforce
        have gone: "map_of (files_of (manifest_dir st1)) h = None"
          using load_entries_frame [OF run frame_h] rename_file_old [OF d'] by simp
        have there: "map_of (files_of (manifest_dir st1)) (h @ ''.bak'') = map_of d0 h"
          using load_entries_frame [OF run frame_b] rename_file_new [OF d'] same by simp
        have head: "(\<forall>err. loadNongsFromPath S d0 h = Inr (Inl err) \<longrightarrow>
               map_of (files_of (manifest_dir st1)) h = None
               \<and> map_of (files_of (manifest_dir st1)) (h @ ''.bak'') = map_of d0 h)
          \<and> (\<forall>n. loadNongsFromPath S d0 h = Inr (Inr n) \<longrightarrow> contains (m_nongs st1) (songID n))"
          using gone there load Inl by simp
        from IH head show ?thesis
          by (simp only: list.set ball_simps bex_simps) (simp, blast)
      next
        case (Inr n)
        let ?st' = "st\<lparr>m_nongs := insert_entry (songID n) (Some n) (m_nongs st)\<rparr>"
        from Cons.prems(1) True load cong Inr have run: "load_entries S fs ?st' = Inr st1"
          by simp
        have agree: "\<forall>g\<in>set fs. extension g = ''.json'' \<longrightarrow>
            map_of (files_of (manifest_dir ?st')) g = map_of d0 g"
          using Cons.prems(3) by simp
        note IH = Cons.IH [OF run di agree]
        have "contains (m_nongs ?st') (songID n)"
          by (auto simp: insert_entry_def contains_def map_add_def split: option.splits)
        then obtain v where "map_of (m_nongs ?st') (songID n) = Some v"
          by (auto simp: contains_def)
        from load_entries_keeps [OF run this] have kept: "contains (m_nongs st1) (songID n)"
          by (simp add: contains_def)
        have head: "(\<forall>err. loadNongsFromPath S d0 h = Inr (Inl err) \<longrightarrow>
               map_of (files_of (manifest_dir st1)) h = None
               \<and> map_of (files_of (manifest_dir st1)) (h @ ''.bak'') = map_of d0 h)
          \<and> (\<forall>n. loadNongsFromPath S d0 h = Inr (Inr n) \<longrightarrow> contains (m_nongs st1) (songID n))"
          using kept load Inr by simp
        have origin: "\<And>k p. (k, p) \<in> set (m_nongs ?st') \<Longrightarrow>
            (k, p) \<in> set (m_nongs st) \<or> (k = songID n \<and> p = Some n)"
          by (auto simp: insert_entry_def split: if_splits)
        have src: "extension h = ''.json'' \<and> loadNongsFromPath S d0 h = Inr (Inr n)"
          using True load Inr by simp
        from IH head origin src show ?thesis
          by (simp only: list.set ball_simps bex_simps) (simp, blast)
      qed
    qed
  qed
qed

text \<open>
  The first call of \<^verbatim>\<open>init\<close> on a directory with no name twice whose \<open>.json\<close> names
  all have a stem that \<^verbatim>\<open>stoi\<close> accepts, from a manifest without null pointers. The
  loop ends, the migration ends, and \<^verbatim>\<open>init\<close> returns \<open>true\<close>. At the end of the loop
  every \<open>.json\<close> file whose load failed has gone and its contents are under its name
  followed by \<open>.bak\<close>; the id of every \<open>.json\<close> file that loaded is a key of the
  manifest; and every element of the manifest was there before or is the aggregate of
  a file that loaded, so that none has been stored for a file whose load failed. With
  no legacy manifest the migration leaves this state as it is.
\<close>

proposition init_quarantines_every_failed_load:
  assumes "\<not> m_initialized st" and "manifest_dir st = Some d" and "distinct (map fst d)"
    and "stems_parse (map fst d)" and "no_null (m_nongs st)"
  shows "\<exists>st1 r st2.
           load_entries S (map fst d) st = Inr st1
         \<and> migrateV2 ops legacy st1 = Inr (r, st2)
         \<and> init S ops legacy st = Inr (True, st2\<lparr>m_initialized := True\<rparr>)
         \<and> (\<not> manifestExists legacy \<longrightarrow> st2 = st1)
         \<and> (\<forall>f c err. map_of d f = Some c \<and> extension f = ''.json''
               \<and> loadNongsFromPath S d f = Inr (Inl err) \<longrightarrow>
               map_of (files_of (manifest_dir st1)) f = None
               \<and> map_of (files_of (manifest_dir st1)) (f @ ''.bak'') = Some c)
         \<and> (\<forall>f n. f \<in> fst ` set d \<and> extension f = ''.json''
               \<and> loadNongsFromPath S d f = Inr (Inr n) \<longrightarrow> contains (m_nongs st1) (songID n))
         \<and> (\<forall>k p. (k, p) \<in> set (m_nongs st1) \<longrightarrow>
               (k, p) \<in> set (m_nongs st)
               \<or> (\<exists>f n. f \<in> fst ` set d \<and> extension f = ''.json''
                     \<and> loadNongsFromPath S d f = Inr (Inr n) \<and> k = songID n \<and> p = Some n))"
proof -
  have present: "\<forall>f\<in>set (map fst d). extension f = ''.json'' \<longrightarrow> map_of d f \<noteq> None"
    by (auto simp: map_of_eq_None_iff)
  from load_entries_total [OF assms(4) assms(3) assms(2) present assms(5), of S]
  obtain st1 where l: "load_entries S (map fst d) st = Inr st1" and nn: "no_null (m_nongs st1)"
    by blast
  have agree: "\<forall>g\<in>set (map fst d). extension g = ''.json'' \<longrightarrow>
      map_of (files_of (manifest_dir st)) g = map_of d g"
    using assms(2) by simp
  note run = load_entries_run [OF l assms(3) agree]
  have st0: "st\<lparr>manifest_dir := create_if_absent (manifest_dir st)\<rparr> = st"
    using assms(2) by (simp add: create_if_absent_def)
  have "\<exists>r st2. migrateV2 ops legacy st1 = Inr (r, st2) \<and> (\<not> manifestExists legacy \<longrightarrow> st2 = st1)"
  proof (cases "parseManifest legacy")
    case (Inl e)
    then show ?thesis by (simp add: migrateV2_def)
  next
    case (Inr kvs)
    from migrate_ids_total [OF nn, of ops kvs] obtain st2
      where "migrate_ids ops kvs st1 = Inr st2"
      by blast
    with Inr show ?thesis by (simp add: migrateV2_def)
  qed
  then obtain r st2 where m: "migrateV2 ops legacy st1 = Inr (r, st2)"
    and same: "\<not> manifestExists legacy \<longrightarrow> st2 = st1"
    by blast
  have i: "init S ops legacy st = Inr (True, st2\<lparr>m_initialized := True\<rparr>)"
    using assms(1,2) l m st0 by (simp add: init_def Let_def)
  have failed: "\<forall>f c err. map_of d f = Some c \<and> extension f = ''.json''
               \<and> loadNongsFromPath S d f = Inr (Inl err) \<longrightarrow>
               map_of (files_of (manifest_dir st1)) f = None
               \<and> map_of (files_of (manifest_dir st1)) (f @ ''.bak'') = Some c"
  proof (intro allI impI)
    fix f c err
    assume a: "map_of d f = Some c \<and> extension f = ''.json''
               \<and> loadNongsFromPath S d f = Inr (Inl err)"
    then have "f \<in> set (map fst d)"
      by (auto dest: map_of_SomeD intro: rev_image_eqI)
    with run a show "map_of (files_of (manifest_dir st1)) f = None
               \<and> map_of (files_of (manifest_dir st1)) (f @ ''.bak'') = Some c"
      by auto
  qed
  have loaded: "\<forall>f n. f \<in> fst ` set d \<and> extension f = ''.json''
               \<and> loadNongsFromPath S d f = Inr (Inr n) \<longrightarrow> contains (m_nongs st1) (songID n)"
    using run by auto
  have origin: "\<forall>k p. (k, p) \<in> set (m_nongs st1) \<longrightarrow>
               (k, p) \<in> set (m_nongs st)
               \<or> (\<exists>f n. f \<in> fst ` set d \<and> extension f = ''.json''
                     \<and> loadNongsFromPath S d f = Inr (Inr n) \<and> k = songID n \<and> p = Some n)"
  proof (intro allI impI)
    fix k p
    assume "(k, p) \<in> set (m_nongs st1)"
    with run have "(k, p) \<in> set (m_nongs st)
             \<or> (\<exists>f\<in>set (map fst d). \<exists>n. extension f = ''.json''
                   \<and> loadNongsFromPath S d f = Inr (Inr n) \<and> k = songID n \<and> p = Some n)"
      by blast
    then show "(k, p) \<in> set (m_nongs st)
               \<or> (\<exists>f n. f \<in> fst ` set d \<and> extension f = ''.json''
                     \<and> loadNongsFromPath S d f = Inr (Inr n) \<and> k = songID n \<and> p = Some n)"
      by auto
  qed
  from l m i same failed loaded origin show ?thesis
    by blast
qed

lemma stoi_0: "stoi ''0'' = Inr 0"
  by (simp add: stoi_def isspace_def isdigit_def digits_value_def)

lemma extension_0_json: "extension ''0.json'' = ''.json''"
  by (simp add: extension_def)

text \<open>
  C7. A \<open>.json\<close> file whose load fails is to be renamed, with the loop going on and
  \<^verbatim>\<open>init\<close> returning \<open>true\<close>. On a directory whose \<open>.json\<close> names all have a stem that
  \<^verbatim>\<open>stoi\<close> accepts the code does so, as \<open>init_quarantines_every_failed_load\<close> says. Beside
  a name that \<^verbatim>\<open>stoi\<close> rejects it does not: in the directory of \<open>abc.json\<close> and
  \<open>0.json\<close> the load of \<open>0.json\<close> fails, and \<^verbatim>\<open>init\<close> ends with the exception of
  \<^verbatim>\<open>stoi\<close>; \<open>0.json\<close> is not renamed and \<^verbatim>\<open>init\<close> does not return.
\<close>

theorem init_failed_load_beside_bad_stem:
  "loadNongsFromPath example_serializer [(''abc.json'', Some ''{}''), (''0.json'', Some ''C'')]
     ''0.json'' = Inr (Inl ''Invalid filename 0.json'')
   \<and> init example_serializer example_ops no_legacy
       (example_state [] [(''abc.json'', Some ''{}''), (''0.json'', Some ''C'')])
     = Inl InvalidArgument"
  by (simp add: init_def example_state_def create_if_absent_def loadNongsFromPath_def
      stem_abc_json extension_abc_json stoi_abc stem_def extension_0_json stoi_0)

text \<open>
  A run on a directory whose stems all parse: \<open>7.json\<close>, which does not parse as
  JSON, and \<open>0.json\<close> are renamed, \<open>8.json\<close> is loaded, and \<^verbatim>\<open>init\<close> returns \<open>true\<close>.
\<close>

lemma init_quarantine_run:
  "init example_serializer example_ops no_legacy
     (example_state [] [(''7.json'', Some ''{''), (''0.json'', Some ''C''), (''8.json'', Some ''B'')])
   = Inr (True,
       (example_state [(8, Some (example_nongs 8 ''B''))]
          [(''7.json.bak'', Some ''{''), (''0.json.bak'', Some ''C''), (''8.json'', Some ''B'')])
         \<lparr>m_initialized := True\<rparr>)"
proof -
  have "format_int 7 = ''7''"
    by code_simp
  then show ?thesis
    by (simp add: init_def example_state_def create_if_absent_def loadNongsFromPath_def stem_def
        extension_7_json extension_0_json extension_8_json stoi_7 stoi_0 stoi_8
        example_serializer_def rename_file_def contains_def insert_entry_def migrateV2_def
        no_legacy_def example_nongs_def mkNongs_def)
qed

subsection \<open>getMultiAssetSizes\<close>

lemma sum_songs_append:
  "sum_songs F st FS resources (xs @ ys) acc =
     (case sum_songs F st FS resources xs acc of
        Inl e \<Rightarrow> Inl e
      | Inr acc' \<Rightarrow> sum_songs F st FS resources ys acc')"
  by (induction xs arbitrary: acc) (auto split: sum.splits option.splits)

lemma sum_songs_no_path:
  "\<not> active_has_path st s \<Longrightarrow> sum_songs F st FS resources (s # ss) acc = Inl BadOptionalAccess"
  by (auto simp: active_has_path_def split: sum.splits option.splits)

lemma sum_songs_returns_paths:
  "sum_songs F st FS resources ss acc = Inr r \<Longrightarrow> list_all (active_has_path st) ss"
proof (induction ss arbitrary: acc)
  case Nil
  then show ?case by simp
next
  case (Cons s ss)
  have here: "active_has_path st s"
  proof (rule ccontr)
    assume "\<not> active_has_path st s"
    from sum_songs_no_path [OF this, of F FS resources ss acc] Cons.prems show False
      by simp
  qed
  from Cons.prems obtain acc' where "sum_songs F st FS resources ss acc' = Inr r"
    by (auto split: sum.splits option.splits if_splits)
  from Cons.IH [OF this] here show ?case
    by simp
qed

lemma sum_songs_total:
  "list_all (readable_id st) ss \<Longrightarrow> list_all (sizes_readable FS resources st) ss
   \<Longrightarrow> list_all (active_has_path st) ss \<Longrightarrow> \<exists>r. sum_songs F st FS resources ss acc = Inr r"
proof (induction ss arbitrary: acc)
  case Nil
  then show ?case by simp
next
  case (Cons s ss)
  from Cons.prems have rest: "\<And>acc'. \<exists>r. sum_songs F st FS resources ss acc' = Inr r"
    using Cons.IH by simp
  from Cons.prems have r: "readable_id st s" and z: "sizes_readable FS resources st s"
    and p: "active_has_path st s"
    by simp_all
  from r obtain n where n: "stoi s = Inr n"
    by (auto simp: readable_id_def split: sum.splits)
  show ?case
  proof (cases "getNongs st n")
    case None
    with n rest show ?thesis by simp
  next
    case (Some ptr)
    note found = this
    with r n obtain nongs a where ptr: "ptr = Some nongs" and a: "active nongs = Some a"
      by (auto simp: readable_id_def split: option.splits)
    from p n found ptr a obtain p0 where p0: "Song_path a = Some p0"
      by (auto simp: active_has_path_def)
    from z n found ptr a p0 obtain b where b: "fs_exists FS (song_file resources p0) = Inr b"
      by (auto simp: sizes_readable_def split: sum.splits)
    show ?thesis
    proof (cases b)
      case False
      with n found ptr a p0 b rest show ?thesis by simp
    next
      case True
      with z n found ptr a p0 b obtain sz
        where "fs_file_size FS (song_file resources p0) = Inr sz"
        by (auto simp: sizes_readable_def split: sum.splits)
      with True n found ptr a p0 b rest show ?thesis by simp
    qed
  qed
qed

text \<open>
  C10. The loop over the song ids takes the path of the active entry of every aggregate
  it finds, with no test. It returns a sum only if the active entry of every aggregate
  found has a path. At the first piece whose aggregate has an active entry without a
  path, the pieces before it having gone through, it ends with the failed access to
  the empty optional. And when every active entry has a path it does return a sum,
  provided the pieces are readable and the calls to the file system do not throw.
\<close>

theorem sum_songs_needs_active_path:
  "((\<exists>r. sum_songs F st FS resources ss acc = Inr r) \<longrightarrow> list_all (active_has_path st) ss)
   \<and> (\<forall>pre s rest acc'.
         ss = pre @ s # rest \<and> sum_songs F st FS resources pre acc = Inr acc'
         \<and> \<not> active_has_path st s \<longrightarrow>
         sum_songs F st FS resources ss acc = Inl BadOptionalAccess)
   \<and> (list_all (readable_id st) ss \<and> list_all (sizes_readable FS resources st) ss
        \<and> list_all (active_has_path st) ss \<longrightarrow>
        (\<exists>r. sum_songs F st FS resources ss acc = Inr r))"
proof (intro conjI impI allI)
  assume "\<exists>r. sum_songs F st FS resources ss acc = Inr r"
  then obtain r where "sum_songs F st FS resources ss acc = Inr r"
    by (rule exE)
  then show "list_all (active_has_path st) ss"
    by (rule sum_songs_returns_paths)
next
  fix pre s rest acc'
  assume a: "ss = pre @ s # rest \<and> sum_songs F st FS resources pre acc = Inr acc'
         \<and> \<not> active_has_path st s"
  then have "\<not> active_has_path st s"
    by simp
  then have "sum_songs F st FS resources (s # rest) acc' = Inl BadOptionalAccess"
    by (rule sum_songs_no_path)
  with a show "sum_songs F st FS resources ss acc = Inl BadOptionalAccess"
    by (simp add: sum_songs_append)
next
  assume "list_all (readable_id st) ss \<and> list_all (sizes_readable FS resources st) ss
        \<and> list_all (active_has_path st) ss"
  then show "\<exists>r. sum_songs F st FS resources ss acc = Inr r"
    using sum_songs_total [of st ss FS resources F acc] by simp
qed

lemma stoi_42: "stoi ''42'' = Inr 42"
  by (simp add: stoi_def isspace_def isdigit_def digits_value_def)

lemma active_youtube_active:
  "active youtube_active
     = Some (Youtube \<lparr>yt_metadata = mkSongMetadata 42 ''y'' ''Video'' ''artist'',
                      yt_url = ''https://youtu.be/x''\<rparr>)"
  by (simp add: active_def youtube_active_def entries_def example_nongs_def mkNongs_def
      example_song_def mkSongMetadata_def)

lemma active_example_nongs:
  "active (example_nongs 7 ''A'')
     = Some (Local (example_song 7 ''d'' ''A'' 0 ''songs/default.mp3''))"
  by (simp add: active_def entries_def example_nongs_def mkNongs_def example_song_def
      mkSongMetadata_def)

lemma song_file_default: "song_file ''/gd/Resources'' ''songs/default.mp3'' = ''/gd/Resources/songs/default.mp3''"
  by (simp add: song_file_def starts_with_def path_join_def)

theorem sum_songs_needs_active_path_witness:
  "list_all (readable_id (example_state [(7, Some (example_nongs 7 ''A'')), (42, Some youtube_active)] []))
     (getlines [] ''7,42'')
   \<and> list_all (sizes_readable example_fs ''/gd/Resources''
        (example_state [(7, Some (example_nongs 7 ''A'')), (42, Some youtube_active)] []))
     (getlines [] ''7,42'')
   \<and> list_all (active_has_path
        (example_state [(7, Some (example_nongs 7 ''A'')), (42, Some youtube_active)] []))
     (getlines [] ''7'')
   \<and> \<not> active_has_path
        (example_state [(7, Some (example_nongs 7 ''A'')), (42, Some youtube_active)] []) ''42''
   \<and> sum_songs example_float
       (example_state [(7, Some (example_nongs 7 ''A'')), (42, Some youtube_active)] [])
       example_fs ''/gd/Resources'' (getlines [] ''7'') 0
     = Inr 2097152
   \<and> sum_songs example_float
       (example_state [(7, Some (example_nongs 7 ''A'')), (42, Some youtube_active)] [])
       example_fs ''/gd/Resources'' (getlines [] ''7,42'') 0
     = Inl BadOptionalAccess"
proof -
  let ?st = "example_state [(7, Some (example_nongs 7 ''A'')), (42, Some youtube_active)] []"
  have lines: "getlines [] ''7,42'' = [''7'', ''42'']" "getlines [] ''7'' = [''7'']"
    by simp_all
  have r: "list_all (readable_id ?st) [''7'', ''42'']"
    using active_youtube_active active_example_nongs
    by (simp add: readable_id_def stoi_7 stoi_42 getNongs_map_of example_state_def)
  have z: "list_all (sizes_readable example_fs ''/gd/Resources'' ?st) [''7'', ''42'']"
    using active_youtube_active active_example_nongs
    by (simp add: sizes_readable_def stoi_7 stoi_42 getNongs_map_of example_state_def
        example_song_def song_file_default example_fs_def)
  have p7: "list_all (active_has_path ?st) [''7'']"
    using active_example_nongs
    by (simp add: active_has_path_def stoi_7 getNongs_map_of example_state_def example_song_def)
  have p42: "\<not> active_has_path ?st ''42''"
    using active_youtube_active
    by (simp add: active_has_path_def stoi_42 getNongs_map_of example_state_def)
  from r z have r7: "list_all (readable_id ?st) [''7'']"
    and z7: "list_all (sizes_readable example_fs ''/gd/Resources'' ?st) [''7'']"
    by simp_all
  have "\<exists>v. sum_songs example_float ?st example_fs ''/gd/Resources'' [''7''] 0 = Inr v"
    using sum_songs_needs_active_path
      [of example_float ?st example_fs "''/gd/Resources''" "[''7'']" 0] r7 z7 p7
    by blast
  moreover have "\<And>v. sum_songs example_float ?st example_fs ''/gd/Resources'' [''7''] 0 = Inr v
      \<Longrightarrow> v = 2097152"
    using active_example_nongs
    by (simp add: stoi_7 getNongs_map_of example_state_def example_song_def song_file_default
        example_fs_def example_float_def)
  ultimately have s7: "sum_songs example_float ?st example_fs ''/gd/Resources'' [''7''] 0
      = Inr 2097152"
    by blast
  have s742: "sum_songs example_float ?st example_fs ''/gd/Resources'' [''7'', ''42''] 0
      = Inl BadOptionalAccess"
    using sum_songs_needs_active_path
      [of example_float ?st example_fs "''/gd/Resources''" "[''7'', ''42'']" 0,
        THEN conjunct2, THEN conjunct1, rule_format, of "[''7'']" "''42''" "[]" 2097152]
      s7 p42
    by simp
  from r z p7 p42 s7 s742 show ?thesis
    by (simp only: lines) simp
qed

text \<open>
  A path that exists and has no size, as a directory: \<^verbatim>\<open>file_size\<close> throws and the loop
  ends with its exception.
\<close>

lemma sum_songs_directory_throws:
  "sum_songs example_float
     (example_state [(9, Some (mkNongs 9 (example_song 9 ''d'' ''Dir'' 0 ''/gd/Resources/songs'')))] [])
     example_fs ''/gd/Resources'' (getlines [] ''9'') 0
   = Inl FilesystemError"
  by (simp add: stoi_def isspace_def isdigit_def digits_value_def getNongs_map_of
      example_state_def active_def entries_def mkNongs_def example_song_def mkSongMetadata_def
      song_file_def starts_with_def example_fs_def)

end
